theory Spec2Isabelle
  imports Main "HOL-Library.Sublist" "HOL-Library.Word"
begin

text \<open>
  A model of the Pyodide support code: the package registry of the package manager, the
  execution worker (package list, background preload, \<open>executeCode\<close>, the message
  handler) and the package utilities (list cache, wheel cache in IndexedDB, the caching
  \<open>loadPackage\<close> wrapper, the installers). State is passed explicitly, a thrown error is
  a value, and the interpreter, the network, the clock and the database are parameters
  of every function that uses them. The definitions come first, then the lemmas, then
  one section for each of the claims C1 to C10.
\<close>

section \<open>Package manager: the in-memory package registry\<close>

text \<open>
  The package manager keeps one module-level object with three sets of package names.
  Its exported operations are \<open>isPackageLoaded\<close>, \<open>markPackageAsLoaded\<close> and
  \<open>markPackageAsFailed\<close>; the file has no operation that adds a name to \<open>loading\<close>.
\<close>

record PackageCache =
  loaded :: "string set"
  loading :: "string set"
  failed :: "string set"

definition packageCache_initial :: PackageCache where
  "packageCache_initial = \<lparr>loaded = {}, loading = {}, failed = {}\<rparr>"

definition isPackageLoaded :: "PackageCache \<Rightarrow> string \<Rightarrow> bool" where
  "isPackageLoaded pc packageName = (packageName \<in> loaded pc)"

definition markPackageAsLoaded :: "string \<Rightarrow> PackageCache \<Rightarrow> PackageCache" where
  "markPackageAsLoaded packageName pc =
     (let pc1 = pc\<lparr>loading := loading pc - {packageName}\<rparr>
      in pc1\<lparr>loaded := insert packageName (loaded pc1)\<rparr>)"

definition markPackageAsFailed :: "string \<Rightarrow> PackageCache \<Rightarrow> PackageCache" where
  "markPackageAsFailed packageName pc =
     (let pc1 = pc\<lparr>loading := loading pc - {packageName}\<rparr>
      in pc1\<lparr>failed := insert packageName (failed pc1)\<rparr>)"

text \<open>A call of one of the two mutating operations, and a sequence of such calls.\<close>

datatype registry_op = MarkLoaded string | MarkFailed string

fun registry_step :: "PackageCache \<Rightarrow> registry_op \<Rightarrow> PackageCache" where
  "registry_step pc (MarkLoaded n) = markPackageAsLoaded n pc"
| "registry_step pc (MarkFailed n) = markPackageAsFailed n pc"

definition registry_run :: "registry_op list \<Rightarrow> PackageCache \<Rightarrow> PackageCache" where
  "registry_run ops pc = foldl registry_step pc ops"

text \<open>How many of the three sets hold a name.\<close>

definition memberships :: "PackageCache \<Rightarrow> string \<Rightarrow> nat" where
  "memberships pc n =
     (if n \<in> loaded pc then 1 else 0) + (if n \<in> loading pc then 1 else 0)
       + (if n \<in> failed pc then 1 else 0)"

text \<open>No name is in \<open>loading\<close> and in one of the other two sets.\<close>

definition loading_apart :: "PackageCache \<Rightarrow> bool" where
  "loading_apart pc = (loading pc \<inter> (loaded pc \<union> failed pc) = {})"

section \<open>JavaScript values the code handles\<close>

text \<open>
  A thrown JavaScript error is modelled by its text, \<open>String(error)\<close>. A computation
  that may throw returns \<open>Inl\<close> of that text; one that also mutates state returns the
  state it left behind next to it.
\<close>

type_synonym fault = string

type_synonym bytes = "8 word list"

text \<open>
  What \<open>response.json()\<close> and \<open>JSON.parse\<close> produce. Numbers are the integer ones;
  an object lists its members in the order of the text.
\<close>

datatype json =
    JNull
  | JBool bool
  | JNum int
  | JStr string
  | JArr "json list"
  | JObj "(string \<times> json) list"

text \<open>
  \<open>data.packages\<close>: a TypeError on \<open>null\<close>, a member's value on an object (the last
  one of that name), \<open>undefined\<close> (here \<open>None\<close>) on everything else.
\<close>

fun packages_member :: "json \<Rightarrow> fault + json option" where
  "packages_member JNull = Inl ''TypeError: Cannot read properties of null''"
| "packages_member (JObj kvs) = Inr (map_of (rev kvs) ''packages'')"
| "packages_member (JBool b) = Inr None"
| "packages_member (JNum n) = Inr None"
| "packages_member (JStr s) = Inr None"
| "packages_member (JArr xs) = Inr None"

fun truthy :: "json \<Rightarrow> bool" where
  "truthy JNull = False"
| "truthy (JBool b) = b"
| "truthy (JNum n) = (n \<noteq> 0)"
| "truthy (JStr s) = (s \<noteq> [])"
| "truthy (JArr xs) = True"
| "truthy (JObj kvs) = True"

text \<open>\<open>x || d\<close>, for \<open>x\<close> possibly \<open>undefined\<close>.\<close>

definition or_default :: "json option \<Rightarrow> json \<Rightarrow> json" where
  "or_default x d = (case x of None \<Rightarrow> d | Some v \<Rightarrow> if truthy v then v else d)"

text \<open>\<open>String.prototype.toLowerCase\<close> on ASCII text.\<close>

definition lower_char :: "char \<Rightarrow> char" where
  "lower_char c =
     (let n = (of_char c :: nat) in if 65 \<le> n \<and> n \<le> 90 then char_of (n + 32) else c)"

definition toLowerCase :: "string \<Rightarrow> string" where
  "toLowerCase s = map lower_char s"

text \<open>
  \<open>new Set(x)\<close> for a parsed JSON value \<open>x\<close>: the elements of an array, the
  characters of a string, nothing for \<open>null\<close>, a TypeError for a value that is not
  iterable. The set is kept as the list of its elements; \<open>has\<close> is membership.
\<close>

fun new_Set :: "json \<Rightarrow> fault + json list" where
  "new_Set (JArr xs) = Inr xs"
| "new_Set (JStr s) = Inr (map (\<lambda>c. JStr [c]) s)"
| "new_Set JNull = Inr []"
| "new_Set (JBool b) = Inl ''TypeError: boolean is not iterable''"
| "new_Set (JNum n) = Inl ''TypeError: number is not iterable''"
| "new_Set (JObj kvs) = Inl ''TypeError: object is not iterable''"

definition has :: "json list \<Rightarrow> string \<Rightarrow> bool" where
  "has s x = (JStr x \<in> set s)"

fun the_string :: "json \<Rightarrow> string option" where
  "the_string (JStr s) = Some s"
| "the_string JNull = None"
| "the_string (JBool b) = None"
| "the_string (JNum n) = None"
| "the_string (JArr xs) = None"
| "the_string (JObj kvs) = None"

text \<open>
  The value the code calls \<open>packages\<close> is typed \<open>string[]\<close> but comes unchecked from
  JSON. Calling \<open>filter\<close>, \<open>map\<close> or \<open>join\<close> with \<open>toLowerCase\<close> on it throws a
  TypeError unless it is an array of strings.
\<close>

fun as_names :: "json \<Rightarrow> fault + string list" where
  "as_names (JArr xs) =
     (if list_all (\<lambda>x. the_string x \<noteq> None) xs then Inr (List.map_filter the_string xs)
      else Inl ''TypeError: pkg.toLowerCase is not a function'')"
| "as_names JNull = Inl ''TypeError: Cannot read properties of null''"
| "as_names (JBool b) = Inl ''TypeError: packages.filter is not a function''"
| "as_names (JNum n) = Inl ''TypeError: packages.filter is not a function''"
| "as_names (JStr s) = Inl ''TypeError: packages.filter is not a function''"
| "as_names (JObj kvs) = Inl ''TypeError: packages.filter is not a function''"

definition names_json :: "string list \<Rightarrow> json" where
  "names_json ns = JArr (map JStr ns)"

text \<open>
  \<open>x.length === 0\<close> for a JSON value: a TypeError on \<open>null\<close>; \<open>undefined === 0\<close>,
  which is false, on a value with no such property.
\<close>

fun length_is_zero :: "json \<Rightarrow> fault + bool" where
  "length_is_zero (JArr xs) = Inr (xs = [])"
| "length_is_zero (JStr s) = Inr (s = [])"
| "length_is_zero JNull = Inl ''TypeError: Cannot read properties of null''"
| "length_is_zero (JBool b) = Inr False"
| "length_is_zero (JNum n) = Inr False"
| "length_is_zero (JObj kvs) = Inr (map_of (rev kvs) ''length'' = Some (JNum 0))"

text \<open>\<open>x.join(', ')\<close>, used in log lines: a TypeError unless \<open>x\<close> is an array.\<close>

fun join_check :: "json \<Rightarrow> fault + unit" where
  "join_check (JArr xs) = Inr ()"
| "join_check JNull = Inl ''TypeError: Cannot read properties of null''"
| "join_check (JBool b) = Inl ''TypeError: join is not a function''"
| "join_check (JNum n) = Inl ''TypeError: join is not a function''"
| "join_check (JStr s) = Inl ''TypeError: join is not a function''"
| "join_check (JObj kvs) = Inl ''TypeError: join is not a function''"

text \<open>The string operations the fetch wrapper applies to a URL.\<close>

fun includes_str :: "string \<Rightarrow> string \<Rightarrow> bool" where
  "includes_str [] sub = (sub = [])"
| "includes_str (c # cs) sub = (prefix sub (c # cs) \<or> includes_str cs sub)"

definition endsWith :: "string \<Rightarrow> string \<Rightarrow> bool" where
  "endsWith s suf = (length suf \<le> length s \<and> drop (length s - length suf) s = suf)"

text \<open>\<open>url.split('/')\<close>, last part; \<open>filename.split('-')[0]\<close>.\<close>

definition last_part :: "string \<Rightarrow> string" where
  "last_part u = rev (takeWhile (\<lambda>c. c \<noteq> CHR ''/'') (rev u))"

definition first_part :: "string \<Rightarrow> string" where
  "first_part filename = takeWhile (\<lambda>c. c \<noteq> CHR ''-'') filename"

section \<open>The interpreter runtime and the network, as the code sees them\<close>

text \<open>
  The Python programs the code passes to \<open>runPythonAsync\<close> are fixed texts, named here
  by what they do; \<open>CheckScript\<close> carries the lower-cased names spliced into its text,
  \<open>UserCode\<close> the text of a cell.
\<close>

datatype script =
    DiagnosticScript
  | ConfigureScript
  | VerifyScript
  | AvailableScript
  | CheckScript "string list"
  | UserCode string

datatype call =
    LoadPackage "string list"
  | PyImport string
  | Install json
  | RunPythonAsync script
  | LoadPackagesFromImports string

text \<open>
  A value returned by a call into the runtime: \<open>JsonText j\<close> is a value that
  \<open>JSON.parse\<close> reads as \<open>j\<close> (the text \<open>json.dumps\<close> returned, a number,
  \<open>true\<close>); \<open>Opaque d\<close> is any other value, which \<open>JSON.parse\<close> rejects.
\<close>

datatype pyvalue = JsonText json | Opaque string

fun JSON_parse :: "pyvalue \<Rightarrow> fault + json" where
  "JSON_parse (JsonText j) = Inr j"
| "JSON_parse (Opaque d) = Inl ''SyntaxError: Unexpected token''"

text \<open>
  What a runtime call does before it settles: text written to the output streams,
  progress reported to the callbacks of \<open>loadPackagesFromImports\<close>, and downloads made
  through the ambient \<open>fetch\<close> (the URL and the body received).
\<close>

datatype out_event =
    Stdout string
  | Stderr string
  | PkgMessage string
  | PkgError string
  | Fetched string bytes

datatype reply = Reply (events: "out_event list") (outcome: "fault + pyvalue")

text \<open>The ambient \<open>fetch\<close>: the platform's own, or a wrapper closed over the previous one.\<close>

datatype fetch_fn = NativeFetch | WheelLogger fetch_fn | WheelCacher fetch_fn

datatype http_reply =
    NetworkError fault
  | Response (ok: bool) (http_status: nat) (body: "json option")

datatype idb_outcome = OpenFails | RequestFails | Succeeds

text \<open>
  The environment of a run. The runtime answers a call as a function of the calls made
  before it; the list endpoint, the clock, the database and \<open>loadPyodide\<close> answer as a
  function of how often they were asked before. \<open>body = None\<close> is a body that
  \<open>response.json()\<close> rejects; \<open>loadPyodide\<close> gives the error it rejects with, if any.
\<close>

record env =
  rt :: "call list \<Rightarrow> call \<Rightarrow> reply"
  http :: "nat \<Rightarrow> http_reply"
  clock :: "nat \<Rightarrow> int"
  idb :: "nat \<Rightarrow> idb_outcome"
  loadPyodide :: "nat \<Rightarrow> fault option"

text \<open>Sequencing of steps that may throw: the first error ends the sequence.\<close>

definition andThen ::
  "(fault + 'a) \<times> 's \<Rightarrow> ('a \<Rightarrow> 's \<Rightarrow> (fault + 'b) \<times> 's) \<Rightarrow> (fault + 'b) \<times> 's" where
  "andThen m k = (case m of (Inl f, s) \<Rightarrow> (Inl f, s) | (Inr v, s) \<Rightarrow> k v s)"

text \<open>The expiring list cache entry, \<open>{timestamp, packages}\<close>, and its lifetime.\<close>

record packageList =
  timestamp :: int
  packages :: json

definition CACHE_EXPIRY_MS :: int where
  "CACHE_EXPIRY_MS = 24 * 60 * 60 * 1000"

section \<open>The execution worker\<close>

datatype status = Idle | Running | Completed | Error

record CellState =
  cell_id :: string
  status :: status
  result :: "pyvalue option"
  stdout :: string
  stderr :: string

datatype notification =
    Initialized
  | StdoutMsg string string
  | StderrMsg string string
  | PackageStdout string string
  | PackageStderr string string
  | Result string "CellState option"
  | KernelState "string \<rightharpoonup> CellState"

text \<open>
  The worker's global scope. \<open>pyodide\<close> tells whether \<open>self.pyodide\<close> is set;
  \<open>stdout_handler\<close> and \<open>stderr_handler\<close> hold the cell id the callbacks installed with
  \<open>setStdout\<close> and \<open>setStderr\<close> are closed over (\<open>None\<close> before any was installed);
  \<open>packageCache\<close> is the module's variable of that name. The remaining fields record
  what the worker did: the messages it posted, the runtime calls it made, how many list
  requests it sent, how often it read the clock and called \<open>loadPyodide\<close>, how many
  background preloads it started that have not run yet, and whether \<open>self.close()\<close>
  was called. Before
  \<open>initializePyodide\<close> ran, \<open>self.cells\<close> is undefined; it reads as the empty map here.
\<close>

record worker =
  pyodide :: bool
  indexURL :: string
  self_stdout :: "string option"
  self_stderr :: "string option"
  cells :: "string \<rightharpoonup> CellState"
  packagesLoaded :: bool
  fetch :: fetch_fn
  packageCache :: "packageList option"
  stdout_handler :: "string option"
  stderr_handler :: "string option"
  posted :: "notification list"
  calls :: "call list"
  requests :: nat
  clock_reads :: nat
  load_attempts :: nat
  preloads_pending :: nat
  closed :: bool

definition worker_initial :: worker where
  "worker_initial =
     \<lparr>pyodide = False, indexURL = [], self_stdout = None, self_stderr = None,
      cells = Map.empty, packagesLoaded = False, fetch = NativeFetch, packageCache = None,
      stdout_handler = None, stderr_handler = None, posted = [], calls = [],
      requests = 0, clock_reads = 0, load_attempts = 0, preloads_pending = 0,
      closed = False\<rparr>"

definition DEFAULT_PACKAGES :: "string list" where
  "DEFAULT_PACKAGES =
     [''micropip'', ''packaging'', ''requests'', ''beautifulsoup4'', ''numpy'', ''pandas'',
      ''matplotlib'', ''scipy'', ''regex'']"

definition Date_now :: "env \<Rightarrow> worker \<Rightarrow> int \<times> worker" where
  "Date_now e w = (clock e (clock_reads w), w\<lparr>clock_reads := clock_reads w + 1\<rparr>)"

subsection \<open>fetchPyodidePackages\<close>

text \<open>The \<open>try\<close> block of \<open>fetchPyodidePackages\<close>: one request, every error caught.\<close>

definition fetch_list :: "env \<Rightarrow> worker \<Rightarrow> json \<times> worker" where
  "fetch_list e w =
     (let w1 = w\<lparr>requests := requests w + 1\<rparr>
      in case http e (requests w) of
           NetworkError f \<Rightarrow> (names_json DEFAULT_PACKAGES, w1)
         | Response okay code payload \<Rightarrow>
             if \<not> okay then (names_json DEFAULT_PACKAGES, w1)
             else (case payload of
                     None \<Rightarrow> (names_json DEFAULT_PACKAGES, w1)
                   | Some data \<Rightarrow>
                       (case packages_member data of
                          Inl f \<Rightarrow> (names_json DEFAULT_PACKAGES, w1)
                        | Inr p \<Rightarrow>
                            let pkgs = or_default p (names_json DEFAULT_PACKAGES);
                                (t, w2) = Date_now e w1
                            in (pkgs, w2\<lparr>packageCache := Some \<lparr>timestamp = t, packages = pkgs\<rparr>\<rparr>))))"

definition fetchPyodidePackages :: "env \<Rightarrow> worker \<Rightarrow> json \<times> worker" where
  "fetchPyodidePackages e w =
     (case packageCache w of
        None \<Rightarrow> fetch_list e w
      | Some c \<Rightarrow>
          let (t, w1) = Date_now e w
          in if t - timestamp c < CACHE_EXPIRY_MS then (packages c, w1) else fetch_list e w1)"

subsection \<open>Runtime calls and the output handlers\<close>

text \<open>
  The callbacks installed by \<open>executeCode\<close>: append to the cell's buffer, then post the
  chunk. Reading \<open>self.cells[id]\<close> of a cell that is gone throws.
\<close>

definition stdout_batched :: "string \<Rightarrow> string \<Rightarrow> worker \<Rightarrow> fault option \<times> worker" where
  "stdout_batched i msg w =
     (case cells w i of
        None \<Rightarrow> (Some ''TypeError: Cannot read properties of undefined'', w)
      | Some c \<Rightarrow>
          (None, w\<lparr>cells := (cells w)(i \<mapsto> c\<lparr>stdout := stdout c @ msg\<rparr>),
                    posted := posted w @ [StdoutMsg i msg]\<rparr>))"

definition stderr_batched :: "string \<Rightarrow> string \<Rightarrow> worker \<Rightarrow> fault option \<times> worker" where
  "stderr_batched i msg w =
     (case cells w i of
        None \<Rightarrow> (Some ''TypeError: Cannot read properties of undefined'', w)
      | Some c \<Rightarrow>
          (None, w\<lparr>cells := (cells w)(i \<mapsto> c\<lparr>stderr := stderr c @ msg\<rparr>),
                    posted := posted w @ [StderrMsg i msg]\<rparr>))"

text \<open>
  One event of a runtime call reaches the worker. \<open>cb\<close> is the cell id of the
  \<open>messageCallback\<close> and \<open>errorCallback\<close> passed to the call, if it was passed any.
  Output with no handler installed goes to the console, as does what the fetch wrapper
  logs; the console is not part of the state.
\<close>

fun deliver :: "string option \<Rightarrow> out_event \<Rightarrow> worker \<Rightarrow> fault option \<times> worker" where
  "deliver cb (Stdout msg) w =
     (case stdout_handler w of None \<Rightarrow> (None, w) | Some i \<Rightarrow> stdout_batched i msg w)"
| "deliver cb (Stderr msg) w =
     (case stderr_handler w of None \<Rightarrow> (None, w) | Some i \<Rightarrow> stderr_batched i msg w)"
| "deliver cb (PkgMessage msg) w =
     (case cb of
        None \<Rightarrow> (None, w)
      | Some i \<Rightarrow> (None, w\<lparr>posted := posted w @ [PackageStdout i (''[package] '' @ msg)]\<rparr>))"
| "deliver cb (PkgError msg) w =
     (case cb of
        None \<Rightarrow> (None, w)
      | Some i \<Rightarrow> (None, w\<lparr>posted := posted w @ [PackageStderr i (''[package] '' @ msg)]\<rparr>))"
| "deliver cb (Fetched u b) w = (None, w)"

fun deliver_all :: "string option \<Rightarrow> out_event list \<Rightarrow> worker \<Rightarrow> fault option \<times> worker" where
  "deliver_all cb [] w = (None, w)"
| "deliver_all cb (ev # evs) w =
     (case deliver cb ev w of
        (Some f, w1) \<Rightarrow> (Some f, w1)
      | (None, w1) \<Rightarrow> deliver_all cb evs w1)"

text \<open>
  An awaited call into the runtime: the call is logged, its events reach the worker in
  order, and it settles with the runtime's outcome, or with the error of a handler that
  threw.
\<close>

definition call_runtime ::
  "env \<Rightarrow> string option \<Rightarrow> call \<Rightarrow> worker \<Rightarrow> (fault + pyvalue) \<times> worker" where
  "call_runtime e cb c w =
     (let r = rt e (calls w) c;
          w1 = w\<lparr>calls := calls w @ [c]\<rparr>
      in case deliver_all cb (events r) w1 of
           (Some f, w2) \<Rightarrow> (Inl f, w2)
         | (None, w2) \<Rightarrow> (outcome r, w2))"

text \<open>A step that computes without touching the state.\<close>

definition pure_step :: "fault + 'a \<Rightarrow> worker \<Rightarrow> (fault + 'a) \<times> worker" where
  "pure_step r w = (r, w)"

subsection \<open>preloadPackages\<close>

definition BATCH_SIZE :: nat where
  "BATCH_SIZE = 3"

text \<open>The batch loop: \<open>for (let i = 0; i < n; i += BATCH_SIZE)\<close>, one awaited install each.\<close>

function install_batches ::
  "env \<Rightarrow> string list \<Rightarrow> nat \<Rightarrow> worker \<Rightarrow> (fault + unit) \<times> worker" where
  "install_batches e packagesToInstall i w =
     (if i < length packagesToInstall then
        (let batch = take BATCH_SIZE (drop i packagesToInstall)
         in case call_runtime e None (Install (names_json batch)) w of
              (Inl f, w1) \<Rightarrow> (Inl f, w1)
            | (Inr v, w1) \<Rightarrow> install_batches e packagesToInstall (i + BATCH_SIZE) w1)
      else (Inr (), w))"
  by pat_completeness auto
termination
  by (relation "measure (\<lambda>(e, ps, i, w). length ps - i)") (auto simp: BATCH_SIZE_def)

declare install_batches.simps [simp del]

definition packagesToInstall_of :: "string list \<Rightarrow> json list \<Rightarrow> string list" where
  "packagesToInstall_of pkgs installedModules =
     filter (\<lambda>pkg. \<not> has installedModules (toLowerCase pkg)) pkgs"

text \<open>
  The body of the \<open>try\<close> of \<open>preloadPackages\<close> after the fetch wrapper is in place and
  the list is known.
\<close>

definition preload_install :: "env \<Rightarrow> json \<Rightarrow> worker \<Rightarrow> (fault + unit) \<times> worker" where
  "preload_install e pkgs w =
     andThen (call_runtime e None (LoadPackage [''micropip'']) w) (\<lambda>_ w.
     andThen (call_runtime e None (PyImport ''micropip'') w) (\<lambda>_ w.
     andThen (call_runtime e None (RunPythonAsync DiagnosticScript) w) (\<lambda>checkResult w.
     andThen (pure_step (JSON_parse checkResult) w) (\<lambda>parsed w.
     andThen (pure_step (new_Set parsed) w) (\<lambda>installedModules w.
     andThen (pure_step (as_names pkgs) w) (\<lambda>names w.
       let packagesToInstall = packagesToInstall_of names installedModules
       in if length packagesToInstall > 0 then
            andThen (call_runtime e None (RunPythonAsync ConfigureScript) w) (\<lambda>_ w.
            andThen (install_batches e packagesToInstall 0 w) (\<lambda>_ w.
            andThen (call_runtime e None (RunPythonAsync VerifyScript) w) (\<lambda>verifyResult w.
            andThen (pure_step (JSON_parse verifyResult) w) (\<lambda>parsed2 w.
            andThen (pure_step (new_Set parsed2) w) (\<lambda>updatedModules w.
              (Inr (), w))))))
          else (Inr (), w)))))))"

text \<open>
  \<open>preloadPackages\<close> never throws: its whole body is in a \<open>try\<close> whose \<open>catch\<close> logs.
  The wrapper it puts around \<open>self.fetch\<close> is not taken off on any path.
\<close>

definition preloadPackages :: "env \<Rightarrow> worker \<Rightarrow> worker" where
  "preloadPackages e w =
     (if packagesLoaded w then w
      else
        let w1 = w\<lparr>fetch := WheelLogger (fetch w)\<rparr>;
            (pkgs, w2) = fetchPyodidePackages e w1
        in case preload_install e pkgs w2 of
             (Inl f, w3) \<Rightarrow> w3
           | (Inr u, w3) \<Rightarrow> w3\<lparr>packagesLoaded := True\<rparr>)"

subsection \<open>initializePyodide\<close>

text \<open>
  \<open>preloadPackages()\<close> is called without \<open>await\<close>: it runs in the background, and
  the worker only counts that it started one. Its run is the function above, taken as
  one step of the worker between messages.
\<close>

definition initializePyodide :: "env \<Rightarrow> worker \<Rightarrow> fault option \<times> worker" where
  "initializePyodide e w =
     (if pyodide w then (None, w)
      else
        let w1 = w\<lparr>indexURL := ''/pyodide/'', self_stdout := Some [], self_stderr := Some [],
                     cells := Map.empty, packagesLoaded := False,
                     load_attempts := load_attempts w + 1\<rparr>
        in case loadPyodide e (load_attempts w) of
             Some f \<Rightarrow> (Some f, w1)
           | None \<Rightarrow> (None, w1\<lparr>pyodide := True, preloads_pending := preloads_pending w1 + 1\<rparr>))"

subsection \<open>executeCode\<close>

definition fresh_cell :: "string \<Rightarrow> CellState" where
  "fresh_cell i = \<lparr>cell_id = i, status = Running, result = None, stdout = [], stderr = []\<rparr>"

text \<open>An assignment to a field of \<open>self.cells[id]\<close>; it throws when the cell is gone.\<close>

definition update_cell ::
  "string \<Rightarrow> (CellState \<Rightarrow> CellState) \<Rightarrow> worker \<Rightarrow> (fault + unit) \<times> worker" where
  "update_cell i f w =
     (case cells w i of
        None \<Rightarrow> (Inl ''TypeError: Cannot set properties of undefined'', w)
      | Some c \<Rightarrow> (Inr (), w\<lparr>cells := (cells w)(i \<mapsto> f c)\<rparr>))"

text \<open>Everything up to the \<open>try\<close>: initialise if needed, reset the cell, install the handlers.\<close>

definition execute_begin :: "env \<Rightarrow> string \<Rightarrow> worker \<Rightarrow> fault option \<times> worker" where
  "execute_begin e i w =
     (case (if \<not> pyodide w then initializePyodide e w else (None, w)) of
        (Some f, w0) \<Rightarrow> (Some f, w0)
      | (None, w0) \<Rightarrow>
          (None, w0\<lparr>cells := (cells w0)(i \<mapsto> fresh_cell i),
                     stdout_handler := Some i, stderr_handler := Some i\<rparr>))"

definition execute_try :: "env \<Rightarrow> string \<Rightarrow> string \<Rightarrow> worker \<Rightarrow> (fault + unit) \<times> worker" where
  "execute_try e i code w =
     andThen (call_runtime e (Some i) (LoadPackagesFromImports code) w) (\<lambda>_ w.
     andThen (call_runtime e None (RunPythonAsync (UserCode code)) w) (\<lambda>v w.
     andThen (update_cell i (\<lambda>c. c\<lparr>result := Some v\<rparr>) w) (\<lambda>_ w.
       update_cell i (\<lambda>c. c\<lparr>status := Completed\<rparr>) w)))"

definition execute_catch :: "string \<Rightarrow> fault \<Rightarrow> worker \<Rightarrow> (fault + unit) \<times> worker" where
  "execute_catch i err w =
     andThen (update_cell i (\<lambda>c. c\<lparr>status := Error\<rparr>) w) (\<lambda>_ w.
       update_cell i (\<lambda>c. c\<lparr>stderr := stderr c @ ''\<newline>'' @ err\<rparr>) w)"

definition execute_finally :: "string \<Rightarrow> worker \<Rightarrow> worker" where
  "execute_finally i w = w\<lparr>posted := posted w @ [Result i (cells w i)]\<rparr>"

text \<open>
  \<open>executeCode\<close>: the error that escapes it, if any, and the worker it leaves. An error
  of the \<open>try\<close> block goes to the \<open>catch\<close>; the \<open>finally\<close> block runs on every path
  that entered the \<open>try\<close>.
\<close>

definition executeCode :: "env \<Rightarrow> string \<Rightarrow> string \<Rightarrow> worker \<Rightarrow> fault option \<times> worker" where
  "executeCode e i code w =
     (case execute_begin e i w of
        (Some f, w1) \<Rightarrow> (Some f, w1)
      | (None, w1) \<Rightarrow>
          (case execute_try e i code w1 of
             (Inr u, w2) \<Rightarrow> (None, execute_finally i w2)
           | (Inl err, w2) \<Rightarrow>
               (case execute_catch i err w2 of
                  (Inr u, w3) \<Rightarrow> (None, execute_finally i w3)
                | (Inl f, w3) \<Rightarrow> (Some f, execute_finally i w3))))"

subsection \<open>The message handler\<close>

datatype request =
    Initialize
  | Execute string string
  | GetState
  | Terminate
  | Unknown string

definition onmessage :: "env \<Rightarrow> request \<Rightarrow> worker \<Rightarrow> fault option \<times> worker" where
  "onmessage e m w =
     (case m of
        Initialize \<Rightarrow>
          (case initializePyodide e w of
             (Some f, w1) \<Rightarrow> (Some f, w1)
           | (None, w1) \<Rightarrow> (None, w1\<lparr>posted := posted w1 @ [Initialized]\<rparr>))
      | Execute i code \<Rightarrow>
          if i \<noteq> [] \<and> code \<noteq> [] then executeCode e i code w else (None, w)
      | GetState \<Rightarrow> (None, w\<lparr>posted := posted w @ [KernelState (cells w)]\<rparr>)
      | Terminate \<Rightarrow> (None, w\<lparr>cells := Map.empty, closed := True\<rparr>)
      | Unknown t \<Rightarrow> (None, w))"

subsection \<open>What can be seen of a cell while \<open>executeCode\<close> runs\<close>

text \<open>
  The states the worker passes through during one runtime call: after the call is
  made, and after each event it delivers.
\<close>

fun deliver_states :: "string option \<Rightarrow> out_event list \<Rightarrow> worker \<Rightarrow> worker list" where
  "deliver_states cb [] w = []"
| "deliver_states cb (ev # evs) w =
     (case deliver cb ev w of
        (Some f, w1) \<Rightarrow> [w1]
      | (None, w1) \<Rightarrow> w1 # deliver_states cb evs w1)"

definition call_states :: "env \<Rightarrow> string option \<Rightarrow> call \<Rightarrow> worker \<Rightarrow> worker list" where
  "call_states e cb c w =
     (let r = rt e (calls w) c;
          w1 = w\<lparr>calls := calls w @ [c]\<rparr>
      in w1 # deliver_states cb (events r) w1)"






text \<open>The worker as a machine: it handles a message, or the background preload runs.\<close>

datatype step = Message request | PreloadRuns

definition worker_step :: "env \<Rightarrow> worker \<Rightarrow> step \<Rightarrow> worker" where
  "worker_step e w s =
     (if closed w then w
      else case s of
             Message m \<Rightarrow> snd (onmessage e m w)
           | PreloadRuns \<Rightarrow>
               if preloads_pending w > 0
               then preloadPackages e (w\<lparr>preloads_pending := preloads_pending w - 1\<rparr>)
               else w)"

definition worker_run :: "env \<Rightarrow> step list \<Rightarrow> worker \<Rightarrow> worker" where
  "worker_run e steps w = foldl (worker_step e) w steps"




subsection \<open>The batch loop, described\<close>

text \<open>
  The batches the loop of \<open>preloadPackages\<close> cuts a list into, from index \<open>i\<close> on,
  and the install call of one batch.
\<close>

function batches_from :: "nat \<Rightarrow> string list \<Rightarrow> string list list" where
  "batches_from i pkgs =
     (if i < length pkgs then take BATCH_SIZE (drop i pkgs) # batches_from (i + BATCH_SIZE) pkgs
      else [])"
  by pat_completeness auto
termination
  by (relation "measure (\<lambda>(i, ps). length ps - i)") (auto simp: BATCH_SIZE_def)

declare batches_from.simps [simp del]

definition install_call :: "string list \<Rightarrow> call" where
  "install_call batch = Install (names_json batch)"

text \<open>
  One install call per batch, in order, each awaited: the next call is made only when
  the one before it has returned without error.
\<close>

fun install_each :: "env \<Rightarrow> string list list \<Rightarrow> worker \<Rightarrow> (fault + unit) \<times> worker" where
  "install_each e [] w = (Inr (), w)"
| "install_each e (b # bs) w =
     (case call_runtime e None (install_call b) w of
        (Inl f, w1) \<Rightarrow> (Inl f, w1)
      | (Inr v, w1) \<Rightarrow> install_each e bs w1)"


fun is_install :: "call \<Rightarrow> bool" where
  "is_install (Install pkgs) = True"
| "is_install (LoadPackage names) = False"
| "is_install (PyImport n) = False"
| "is_install (RunPythonAsync s) = False"
| "is_install (LoadPackagesFromImports code) = False"


text \<open>The parts of the worker that a runtime call and its output never touch.\<close>

definition rest_kept :: "worker \<Rightarrow> worker \<Rightarrow> bool" where
  "rest_kept w w' =
     (fetch w' = fetch w \<and> pyodide w' = pyodide w \<and> packagesLoaded w' = packagesLoaded w
      \<and> packageCache w' = packageCache w \<and> closed w' = closed w
      \<and> stdout_handler w' = stdout_handler w \<and> stderr_handler w' = stderr_handler w
      \<and> preloads_pending w' = preloads_pending w \<and> requests w' = requests w
      \<and> dom (cells w') = dom (cells w))"

text \<open>The parts of the worker that fetching the package list never touches.\<close>

definition list_kept :: "worker \<Rightarrow> worker \<Rightarrow> bool" where
  "list_kept w w' =
     (fetch w' = fetch w \<and> pyodide w' = pyodide w \<and> packagesLoaded w' = packagesLoaded w
      \<and> closed w' = closed w \<and> stdout_handler w' = stdout_handler w
      \<and> stderr_handler w' = stderr_handler w \<and> preloads_pending w' = preloads_pending w
      \<and> cells w' = cells w \<and> calls w' = calls w \<and> posted w' = posted w)"


section \<open>Package utilities: list cache, wheel cache, cached loader\<close>

text \<open>The utilities have a default list of their own.\<close>

definition DEFAULT_PACKAGES_utils :: "string list" where
  "DEFAULT_PACKAGES_utils =
     [''micropip'', ''packaging'', ''requests'', ''beautifulsoup4'', ''numpy'', ''pandas'']"

record PackageWheelCache =
  wheel_name :: string
  wheel_url :: string
  wheel_data :: bytes
  wheel_timestamp :: int

text \<open>
  The item stored under \<open>CACHE_KEY\<close>, read through \<open>JSON.parse\<close>: text it rejects, or
  an object \<open>{timestamp, packages}\<close> as \<open>fetchPyodidePackages\<close> writes it.
\<close>

datatype stored = Unparseable | Entry packageList

text \<open>\<open>pyodide.loadPackage\<close>: the runtime's own, or the wrapper closed over the one before.\<close>

datatype loader = PyodideLoader | CachingLoader loader

text \<open>
  The page the utilities run in: the \<open>CACHE_KEY\<close> item of \<open>localStorage\<close>, the
  \<open>package-wheels\<close> object store keyed by name, \<open>window.fetch\<close>, the \<open>loadPackage\<close>
  property of the runtime object, and counters of what was done so far.
\<close>

record page =
  localStorage :: "stored option"
  wheels :: "string \<rightharpoonup> PackageWheelCache"
  window_fetch :: fetch_fn
  loadPackage :: loader
  page_calls :: "call list"
  page_requests :: nat
  page_clock_reads :: nat
  idb_ops :: nat

definition page_initial :: page where
  "page_initial =
     \<lparr>localStorage = None, wheels = Map.empty, window_fetch = NativeFetch,
      loadPackage = PyodideLoader, page_calls = [], page_requests = 0,
      page_clock_reads = 0, idb_ops = 0\<rparr>"

definition page_now :: "env \<Rightarrow> page \<Rightarrow> int \<times> page" where
  "page_now e p = (clock e (page_clock_reads p), p\<lparr>page_clock_reads := page_clock_reads p + 1\<rparr>)"

subsection \<open>fetchPyodidePackages\<close>

text \<open>\<open>cache.packages && cache.packages.length > 0\<close>, for a value with no member \<open>length\<close> of its own.\<close>

fun nonempty_list :: "json \<Rightarrow> bool" where
  "nonempty_list (JArr xs) = (xs \<noteq> [])"
| "nonempty_list (JStr s) = (s \<noteq> [])"
| "nonempty_list JNull = False"
| "nonempty_list (JBool b) = False"
| "nonempty_list (JNum n) = False"
| "nonempty_list (JObj kvs) = False"

text \<open>The second \<open>try\<close> block: the request, with every error caught.\<close>

definition fetch_list_utils :: "env \<Rightarrow> page \<Rightarrow> json \<times> page" where
  "fetch_list_utils e p =
     (let p1 = p\<lparr>page_requests := page_requests p + 1\<rparr>
      in case http e (page_requests p) of
           NetworkError f \<Rightarrow> (names_json DEFAULT_PACKAGES_utils, p1)
         | Response okay code payload \<Rightarrow>
             if \<not> okay then (names_json DEFAULT_PACKAGES_utils, p1)
             else (case payload of
                     None \<Rightarrow> (names_json DEFAULT_PACKAGES_utils, p1)
                   | Some data \<Rightarrow>
                       (case packages_member data of
                          Inl f \<Rightarrow> (names_json DEFAULT_PACKAGES_utils, p1)
                        | Inr x \<Rightarrow>
                            let pkgs = or_default x (names_json DEFAULT_PACKAGES_utils);
                                (t, p2) = page_now e p1
                            in (pkgs, p2\<lparr>localStorage :=
                                           Some (Entry \<lparr>timestamp = t, packages = pkgs\<rparr>)\<rparr>))))"

definition fetchPyodidePackages_utils :: "env \<Rightarrow> page \<Rightarrow> json \<times> page" where
  "fetchPyodidePackages_utils e p =
     (case localStorage p of
        None \<Rightarrow> fetch_list_utils e p
      | Some Unparseable \<Rightarrow> fetch_list_utils e p
      | Some (Entry c) \<Rightarrow>
          let (t, p1) = page_now e p;
              isExpired = (t - timestamp c > CACHE_EXPIRY_MS)
          in if \<not> isExpired \<and> nonempty_list (packages c) then (packages c, p1)
             else fetch_list_utils e p1)"

subsection \<open>The wheel cache\<close>

definition idb_next :: "env \<Rightarrow> page \<Rightarrow> idb_outcome \<times> page" where
  "idb_next e p = (idb e (idb_ops p), p\<lparr>idb_ops := idb_ops p + 1\<rparr>)"

text \<open>
  \<open>cachePackageWheel\<close>: a database that does not open is caught and logged, and the
  call resolves; a failed \<open>put\<close> request rejects the returned promise (with no reason),
  which the function's own \<open>try\<close> does not await.
\<close>

definition cachePackageWheel ::
  "env \<Rightarrow> string \<Rightarrow> string \<Rightarrow> bytes \<Rightarrow> page \<Rightarrow> fault option \<times> page" where
  "cachePackageWheel e n u d p =
     (let (r, p1) = idb_next e p
      in case r of
           OpenFails \<Rightarrow> (None, p1)
         | RequestFails \<Rightarrow> (Some ''undefined'', snd (page_now e p1))
         | Succeeds \<Rightarrow>
             let (t, p2) = page_now e p1;
                 wheel = \<lparr>wheel_name = n, wheel_url = u, wheel_data = d, wheel_timestamp = t\<rparr>
             in (None, p2\<lparr>wheels := (wheels p2)(n \<mapsto> wheel)\<rparr>))"

definition getCachedPackageWheel ::
  "env \<Rightarrow> string \<Rightarrow> page \<Rightarrow> (fault + bytes option) \<times> page" where
  "getCachedPackageWheel e n p =
     (let (r, p1) = idb_next e p
      in case r of
           OpenFails \<Rightarrow> (Inr None, p1)
         | RequestFails \<Rightarrow> (Inl (''Failed to retrieve package wheel: '' @ n), p1)
         | Succeeds \<Rightarrow> (Inr (map_option wheel_data (wheels p1 n)), p1))"

subsection \<open>Runtime calls made from the page\<close>

definition packageName_of :: "string \<Rightarrow> string" where
  "packageName_of u = first_part (last_part u)"

text \<open>
  A download made through \<open>window.fetch\<close>. The caching wrapper calls the fetch it
  wrapped, and stores the body of a wheel download; an error of the store is caught.
\<close>

fun fetch_through :: "env \<Rightarrow> fetch_fn \<Rightarrow> string \<Rightarrow> bytes \<Rightarrow> page \<Rightarrow> page" where
  "fetch_through e NativeFetch u b p = p"
| "fetch_through e (WheelLogger f) u b p = fetch_through e f u b p"
| "fetch_through e (WheelCacher f) u b p =
     (let p1 = fetch_through e f u b p
      in if includes_str u ''pyodide'' \<and> endsWith u ''.whl''
         then snd (cachePackageWheel e (packageName_of u) u b p1)
         else p1)"

fun page_deliver :: "env \<Rightarrow> out_event \<Rightarrow> page \<Rightarrow> page" where
  "page_deliver e (Fetched u b) p = fetch_through e (window_fetch p) u b p"
| "page_deliver e (Stdout msg) p = p"
| "page_deliver e (Stderr msg) p = p"
| "page_deliver e (PkgMessage msg) p = p"
| "page_deliver e (PkgError msg) p = p"

definition call_page :: "env \<Rightarrow> call \<Rightarrow> page \<Rightarrow> (fault + pyvalue) \<times> page" where
  "call_page e c p =
     (let r = rt e (page_calls p) c;
          p1 = p\<lparr>page_calls := page_calls p @ [c]\<rparr>
      in (outcome r, foldl (\<lambda>q ev. page_deliver e ev q) p1 (events r)))"

definition pure_page :: "fault + 'a \<Rightarrow> page \<Rightarrow> (fault + 'a) \<times> page" where
  "pure_page r p = (r, p)"

subsection \<open>setupCachedPackageLoader\<close>

text \<open>The loop of the wrapper that sorts the requested names by whether a wheel is cached.\<close>

fun sort_cached ::
  "env \<Rightarrow> string list \<Rightarrow> string list \<Rightarrow> string list \<Rightarrow> page
     \<Rightarrow> (fault + string list \<times> string list) \<times> page" where
  "sort_cached e [] cachedPackages packagesToLoad p = (Inr (cachedPackages, packagesToLoad), p)"
| "sort_cached e (pkg # pkgs) cachedPackages packagesToLoad p =
     (case getCachedPackageWheel e pkg p of
        (Inl f, p1) \<Rightarrow> (Inl f, p1)
      | (Inr (Some cachedWheel), p1) \<Rightarrow>
          sort_cached e pkgs (cachedPackages @ [pkg]) packagesToLoad p1
      | (Inr None, p1) \<Rightarrow>
          sort_cached e pkgs cachedPackages (packagesToLoad @ [pkg]) p1)"

text \<open>
  A call of \<open>pyodide.loadPackage(names)\<close> through whatever function the property
  holds. For a cached name the wrapper only logs; the names left go to the wrapped
  function, with the caching fetch wrapper in place for the duration of that call.
\<close>

fun call_loadPackage ::
  "env \<Rightarrow> loader \<Rightarrow> string list \<Rightarrow> page \<Rightarrow> (fault + pyvalue) \<times> page" where
  "call_loadPackage e PyodideLoader names p = call_page e (LoadPackage names) p"
| "call_loadPackage e (CachingLoader originalLoadPackage) names p =
     (case sort_cached e names [] [] p of
        (Inl f, p1) \<Rightarrow> (Inl f, p1)
      | (Inr (cachedPackages, packagesToLoad), p1) \<Rightarrow>
          if length packagesToLoad > 0 then
            (let originalFetch = window_fetch p1;
                 p2 = p1\<lparr>window_fetch := WheelCacher originalFetch\<rparr>;
                 (r, p3) = call_loadPackage e originalLoadPackage packagesToLoad p2;
                 p4 = p3\<lparr>window_fetch := originalFetch\<rparr>
             in case r of
                  Inl f \<Rightarrow> (Inl f, p4)
                | Inr v \<Rightarrow> (Inr (JsonText (JBool True)), p4))
          else (Inr (JsonText (JBool True)), p1))"

definition setupCachedPackageLoader :: "page \<Rightarrow> page" where
  "setupCachedPackageLoader p = p\<lparr>loadPackage := CachingLoader (loadPackage p)\<rparr>"

subsection \<open>checkMissingPackages, installMissingPackages, preloadPyodidePackages\<close>

text \<open>
  The argument \<open>packages\<close> is typed \<open>string[]\<close> and not checked; \<open>JNull\<close> stands for
  an argument that is \<open>null\<close> or absent. Whatever is thrown inside is caught, and the
  argument itself is returned then.
\<close>

definition checkMissingPackages :: "env \<Rightarrow> json \<Rightarrow> page \<Rightarrow> json \<times> page" where
  "checkMissingPackages e pkgs p =
     (if \<not> truthy pkgs then (JArr [], p)
      else case length_is_zero pkgs of
             Inl f \<Rightarrow> (pkgs, p)
           | Inr True \<Rightarrow> (JArr [], p)
           | Inr False \<Rightarrow>
               (case as_names pkgs of
                  Inl f \<Rightarrow> (pkgs, p)
                | Inr names \<Rightarrow>
                    let packageNames = map toLowerCase names
                    in case call_page e (RunPythonAsync (CheckScript packageNames)) p of
                         (Inl f, p1) \<Rightarrow> (pkgs, p1)
                       | (Inr v, p1) \<Rightarrow>
                           (case JSON_parse v of
                              Inl f \<Rightarrow> (pkgs, p1)
                            | Inr missing \<Rightarrow> (missing, p1))))"

text \<open>Load \<open>micropip\<close>, import it, install: the three steps both attempts share.\<close>

definition micropip_install :: "env \<Rightarrow> json \<Rightarrow> page \<Rightarrow> (fault + unit) \<times> page" where
  "micropip_install e pkgs p =
     andThen (call_loadPackage e (loadPackage p) [''micropip''] p) (\<lambda>_ p.
     andThen (call_page e (PyImport ''micropip'') p) (\<lambda>_ p.
     andThen (call_page e (Install pkgs) p) (\<lambda>_ p. (Inr (), p))))"

definition installMissing_try :: "env \<Rightarrow> json \<Rightarrow> page \<Rightarrow> (fault + unit) \<times> page" where
  "installMissing_try e pkgs p =
     (let (missingPackages, p1) = checkMissingPackages e pkgs p
      in andThen (pure_page (length_is_zero missingPackages) p1) (\<lambda>none p.
           if none then (Inr (), p)
           else andThen (pure_page (join_check missingPackages) p) (\<lambda>_ p.
                  micropip_install e missingPackages p)))"

text \<open>\<open>installMissingPackages\<close> never throws: the fallback's error is caught and logged.\<close>

definition installMissingPackages :: "env \<Rightarrow> json \<Rightarrow> page \<Rightarrow> page" where
  "installMissingPackages e pkgs p =
     (case installMissing_try e pkgs p of
        (Inr u, p1) \<Rightarrow> p1
      | (Inl f, p1) \<Rightarrow> snd (micropip_install e pkgs p1))"

definition preload_rest :: "env \<Rightarrow> json \<Rightarrow> page \<Rightarrow> (fault + unit) \<times> page" where
  "preload_rest e pkgs p =
     andThen (call_page e (RunPythonAsync AvailableScript) p) (\<lambda>_ p.
     andThen (call_page e (Install pkgs) p) (\<lambda>_ p. (Inr (), p)))"

definition preload_try ::
  "env \<Rightarrow> json \<Rightarrow> bool \<Rightarrow> bool \<Rightarrow> bool \<Rightarrow> page \<Rightarrow> (fault + unit) \<times> page" where
  "preload_try e pkgs showLogs forceReload useCache p =
     (let p0 = (if useCache then setupCachedPackageLoader p else p)
      in andThen (call_loadPackage e (loadPackage p0) [''micropip''] p0) (\<lambda>_ p.
         andThen (call_page e (PyImport ''micropip'') p) (\<lambda>_ p.
         andThen (pure_page (if showLogs then join_check pkgs else Inr ()) p) (\<lambda>_ p.
           if \<not> forceReload then
             (let (missingPackages, p1) = checkMissingPackages e pkgs p
              in andThen (pure_page (length_is_zero missingPackages) p1) (\<lambda>none p.
                   if none then (Inr (), p) else preload_rest e missingPackages p))
           else preload_rest e pkgs p))))"

text \<open>\<open>preloadPyodidePackages\<close> never throws: its body is one \<open>try\<close> whose \<open>catch\<close> logs.\<close>

definition preloadPyodidePackages ::
  "env \<Rightarrow> json \<Rightarrow> bool \<Rightarrow> bool \<Rightarrow> bool \<Rightarrow> page \<Rightarrow> page" where
  "preloadPyodidePackages e pkgs showLogs forceReload useCache p =
     snd (preload_try e pkgs showLogs forceReload useCache p)"

text \<open>
  The parts of the page the wheel cache works on: a use of the store changes nothing
  but the store, the count of database operations and the count of clock readings.
\<close>

definition store_only :: "page \<Rightarrow> page \<Rightarrow> bool" where
  "store_only p p' =
     (p' = p\<lparr>wheels := wheels p', page_clock_reads := page_clock_reads p', idb_ops := idb_ops p'\<rparr>)"

text \<open>
  What a call of \<open>pyodide.loadPackage\<close> leaves as it found it: \<open>window.fetch\<close>, the
  \<open>loadPackage\<close> property, the list cache, and the install calls made so far.
\<close>

definition loader_kept :: "page \<Rightarrow> page \<Rightarrow> bool" where
  "loader_kept p p' =
     (window_fetch p' = window_fetch p \<and> loadPackage p' = loadPackage p
      \<and> localStorage p' = localStorage p \<and> page_requests p' = page_requests p
      \<and> filter is_install (page_calls p') = filter is_install (page_calls p))"

subsection \<open>Replies of the list endpoint\<close>

text \<open>
  A reply that makes the \<open>try\<close> block of \<open>fetchPyodidePackages\<close> throw: the request
  fails, the status is not a success, the body is not JSON, or it is the JSON \<open>null\<close>.
\<close>

fun failed_reply :: "http_reply \<Rightarrow> bool" where
  "failed_reply (NetworkError f) = True"
| "failed_reply (Response okay code payload) =
     (if okay then (payload = None \<or> payload = Some JNull) else True)"

text \<open>A successful reply whose JSON body has no usable \<open>packages\<close> member.\<close>

fun lacks_list :: "http_reply \<Rightarrow> bool" where
  "lacks_list (NetworkError f) = False"
| "lacks_list (Response okay code payload) =
     (okay \<and> (case payload of
                None \<Rightarrow> False
              | Some data \<Rightarrow>
                  (case packages_member data of
                     Inl f \<Rightarrow> False
                   | Inr None \<Rightarrow> True
                   | Inr (Some v) \<Rightarrow> \<not> truthy v)))"

text \<open>The call sends a request to the list endpoint (the cached list is not used).\<close>

definition list_requested :: "env \<Rightarrow> worker \<Rightarrow> bool" where
  "list_requested e w = (requests (snd (fetchPyodidePackages e w)) = Suc (requests w))"

definition list_requested_utils :: "env \<Rightarrow> page \<Rightarrow> bool" where
  "list_requested_utils e p =
     (page_requests (snd (fetchPyodidePackages_utils e p)) = Suc (page_requests p))"

section \<open>A concrete environment\<close>

text \<open>
  A small runtime on which the definitions can be run: imports and loads succeed, an
  install fails when the package \<open>nosuchpkg\<close> is among the names, the module queries
  report \<open>sys\<close> and \<open>json\<close>, the missing-package query fails when asked about
  \<open>broken\<close> and otherwise reports every name missing, and the cell \<open>1/0\<close> raises.
\<close>

definition demo_script :: "script \<Rightarrow> reply" where
  "demo_script s =
     (case s of
        DiagnosticScript \<Rightarrow>
          Reply [Stdout ''Python version: 3.12''] (Inr (JsonText (JArr [JStr ''sys'', JStr ''json''])))
      | ConfigureScript \<Rightarrow> Reply [Stdout ''Micropip version: 0.6''] (Inr (JsonText JNull))
      | VerifyScript \<Rightarrow> Reply [] (Inr (JsonText (JArr [JStr ''sys'', JStr ''json''])))
      | AvailableScript \<Rightarrow> Reply [Stdout ''Python version: 3.12''] (Inr (JsonText JNull))
      | CheckScript names \<Rightarrow>
          if ''broken'' \<in> set names then Reply [] (Inl ''PythonError: query failed'')
          else Reply [] (Inr (JsonText (names_json names)))
      | UserCode code \<Rightarrow>
          if code = ''1/0''
          then Reply [Stderr ''Traceback''] (Inl ''PythonError: ZeroDivisionError'')
          else Reply [Stdout ''1''] (Inr (JsonText (JNum 1))))"

definition demo_rt :: "call list \<Rightarrow> call \<Rightarrow> reply" where
  "demo_rt history c =
     (case c of
        LoadPackage names \<Rightarrow> Reply [] (Inr (JsonText JNull))
      | PyImport n \<Rightarrow> Reply [] (Inr (Opaque ''module''))
      | Install pkgs \<Rightarrow>
          (case pkgs of
             JArr xs \<Rightarrow>
               if JStr ''nosuchpkg'' \<in> set xs
               then Reply [] (Inl ''ValueError: no wheel for nosuchpkg'')
               else Reply [] (Inr (JsonText JNull))
           | _ \<Rightarrow> Reply [] (Inl ''TypeError: not a list''))
      | RunPythonAsync s \<Rightarrow> demo_script s
      | LoadPackagesFromImports code \<Rightarrow>
          Reply [PkgMessage ''No new packages to load''] (Inr (JsonText JNull)))"

definition demo_env :: env where
  "demo_env =
     \<lparr>rt = demo_rt, http = (\<lambda>k. Response False 500 None), clock = (\<lambda>k. 1000 + int k),
      idb = (\<lambda>k. Succeeds), loadPyodide = (\<lambda>k. None)\<rparr>"

definition seven_names :: "string list" where
  "seven_names = [''attrs'', ''bokeh'', ''click'', ''docutils'', ''emcee'', ''flask'', ''gmpy2'']"

text \<open>A page whose wheel cache holds a record for \<open>numpy\<close>, and a list of packages whose
  first batch cannot be installed on the concrete runtime.\<close>

definition numpy_wheel :: PackageWheelCache where
  "numpy_wheel =
     \<lparr>wheel_name = ''numpy'', wheel_url = ''https://cdn.example/pyodide/numpy-2.0.0-cp312.whl'',
      wheel_data = [80, 75, 3, 4], wheel_timestamp = 990\<rparr>"

definition numpy_page :: page where
  "numpy_page = page_initial\<lparr>wheels := [''numpy'' \<mapsto> numpy_wheel]\<rparr>"

definition seven_bad :: "string list" where
  "seven_bad = [''nosuchpkg'', ''bokeh'', ''click'', ''docutils'', ''emcee'', ''flask'', ''gmpy2'']"

definition bad_list_env :: env where
  "bad_list_env =
     demo_env\<lparr>http := (\<lambda>k. Response True 200 (Some (JObj [(''packages'', names_json seven_bad)])))\<rparr>"

definition empty_object_env :: env where
  "empty_object_env = demo_env\<lparr>http := (\<lambda>k. Response True 200 (Some (JObj [])))\<rparr>"

definition seven_list_env :: env where
  "seven_list_env =
     demo_env\<lparr>http := (\<lambda>k. Response True 200 (Some (JObj [(''packages'', names_json seven_names)])))\<rparr>"

section \<open>Properties of the registry\<close>

lemma loading_apart_step: "loading_apart pc \<Longrightarrow> loading_apart (registry_step pc x)"
  by (cases x) (auto simp: loading_apart_def markPackageAsLoaded_def markPackageAsFailed_def Let_def)

lemma loading_apart_foldl: "loading_apart pc \<Longrightarrow> loading_apart (foldl registry_step pc ops)"
  by (induction ops arbitrary: pc) (simp_all add: loading_apart_step)

lemma sets_grow_step:
  "loaded pc \<subseteq> loaded (registry_step pc x) \<and> failed pc \<subseteq> failed (registry_step pc x)"
  by (cases x) (auto simp: markPackageAsLoaded_def markPackageAsFailed_def Let_def)

lemma sets_grow_foldl:
  "loaded pc \<subseteq> loaded (foldl registry_step pc ops) \<and> failed pc \<subseteq> failed (foldl registry_step pc ops)"
proof (induction ops arbitrary: pc)
  case Nil
  show ?case by simp
next
  case (Cons x xs)
  have "loaded pc \<subseteq> loaded (registry_step pc x)" "failed pc \<subseteq> failed (registry_step pc x)"
    using sets_grow_step [of pc x] by simp_all
  with Cons [of "registry_step pc x"] show ?case by auto
qed

section \<open>The worker: runtime calls\<close>




section \<open>The worker: executeCode\<close>











text \<open>
  The states listed for a runtime call are the ones the call passes through: the state
  the call leaves behind is the last of them.
\<close>

lemma deliver_states_last: "snd (deliver_all cb evs w) = last (w # deliver_states cb evs w)"
proof (induction evs arbitrary: w)
  case Nil
  show ?case by simp
next
  case (Cons ev evs)
  obtain r w1 where d: "deliver cb ev w = (r, w1)" by (cases "deliver cb ev w")
  show ?case
  proof (cases r)
    case None
    then show ?thesis using d Cons.IH [of w1] by simp
  next
    case (Some f)
    then show ?thesis using d by simp
  qed
qed

lemma call_states_last: "snd (call_runtime e cb c w) = last (call_states e cb c w)"
proof -
  let ?w1 = "w\<lparr>calls := calls w @ [c]\<rparr>"
  have "snd (deliver_all cb (events (rt e (calls w) c)) ?w1)
      = last (?w1 # deliver_states cb (events (rt e (calls w) c)) ?w1)"
    by (rule deliver_states_last)
  then show ?thesis
    by (cases "deliver_all cb (events (rt e (calls w) c)) ?w1")
       (auto simp: call_runtime_def call_states_def Let_def split: option.splits)
qed

section \<open>The worker: preloadPackages\<close>

lemma rest_kept_refl: "rest_kept w w"
  by (simp add: rest_kept_def)

lemma rest_kept_trans: "rest_kept w w1 \<Longrightarrow> rest_kept w1 w2 \<Longrightarrow> rest_kept w w2"
  by (simp add: rest_kept_def)




lemma install_batches_each:
  "install_batches e pkgs i w = install_each e (batches_from i pkgs) w"
proof (induction e pkgs i w rule: install_batches.induct)
  case (1 e pkgs i w)
  show ?case
  proof (cases "i < length pkgs")
    case False
    then show ?thesis by (simp add: install_batches.simps [of e pkgs i w] batches_from.simps [of i pkgs])
  next
    case True
    show ?thesis
    proof (cases "call_runtime e None (install_call (take BATCH_SIZE (drop i pkgs))) w")
      case (Pair r w1)
      show ?thesis
      proof (cases r)
        case (Inl f)
        then show ?thesis using True Pair
          by (simp add: install_batches.simps [of e pkgs i w] batches_from.simps [of i pkgs]
              install_call_def)
      next
        case (Inr v)
        have "install_batches e pkgs (i + BATCH_SIZE) w1
            = install_each e (batches_from (i + BATCH_SIZE) pkgs) w1"
          using "1.IH" [OF True refl, of "Inr v" w1 v] Pair Inr
          by (simp add: install_call_def)
        then show ?thesis using True Pair Inr
          by (simp add: install_batches.simps [of e pkgs i w] batches_from.simps [of i pkgs]
              install_call_def)
      qed
    qed
  qed
qed







lemma deliver_kept: "rest_kept w (snd (deliver cb ev w))"
  by (cases ev)
     (auto simp: rest_kept_def stdout_batched_def stderr_batched_def split: option.splits)

lemma deliver_all_kept: "rest_kept w (snd (deliver_all cb evs w))"
proof (induction evs arbitrary: w)
  case Nil
  show ?case by (simp add: rest_kept_refl)
next
  case (Cons ev evs)
  obtain r w1 where d: "deliver cb ev w = (r, w1)" by (cases "deliver cb ev w")
  have 1: "rest_kept w w1" using deliver_kept [of w cb ev] d by simp
  show ?case
  proof (cases r)
    case None
    have "rest_kept w1 (snd (deliver_all cb evs w1))" by (rule Cons.IH)
    with 1 have "rest_kept w (snd (deliver_all cb evs w1))" by (rule rest_kept_trans)
    then show ?thesis using d None by simp
  next
    case (Some f)
    then show ?thesis using d 1 by simp
  qed
qed

lemma call_runtime_kept: "rest_kept w (snd (call_runtime e cb k w))"
proof -
  let ?w1 = "w\<lparr>calls := calls w @ [k]\<rparr>"
  have "rest_kept w ?w1" by (simp add: rest_kept_def)
  moreover have "rest_kept ?w1 (snd (deliver_all cb (events (rt e (calls w) k)) ?w1))"
    by (rule deliver_all_kept)
  ultimately have "rest_kept w (snd (deliver_all cb (events (rt e (calls w) k)) ?w1))"
    by (rule rest_kept_trans)
  then show ?thesis
    by (cases "deliver_all cb (events (rt e (calls w) k)) ?w1")
       (auto simp: call_runtime_def Let_def split: option.splits)
qed

lemma andThen_kept:
  assumes "rest_kept w (snd m)" and "\<And>v s. rest_kept s (snd (k v s))"
  shows "rest_kept w (snd (andThen m k))"
proof (cases m)
  case (Pair r s)
  show ?thesis
  proof (cases r)
    case (Inl f)
    then show ?thesis using assms(1) Pair by (simp add: andThen_def)
  next
    case (Inr v)
    have "rest_kept w s" using assms(1) Pair by simp
    then have "rest_kept w (snd (k v s))" using assms(2) by (rule rest_kept_trans)
    then show ?thesis using Pair Inr by (simp add: andThen_def)
  qed
qed

lemma install_each_kept: "rest_kept w (snd (install_each e bs w))"
proof (induction bs arbitrary: w)
  case Nil
  show ?case by (simp add: rest_kept_refl)
next
  case (Cons b bs)
  obtain r w1 where c: "call_runtime e None (install_call b) w = (r, w1)"
    by (cases "call_runtime e None (install_call b) w")
  have 1: "rest_kept w w1" using call_runtime_kept [of w e None "install_call b"] c by simp
  show ?case
  proof (cases r)
    case (Inl f)
    then show ?thesis using c 1 by simp
  next
    case (Inr v)
    have "rest_kept w1 (snd (install_each e bs w1))" by (rule Cons.IH)
    with 1 have "rest_kept w (snd (install_each e bs w1))" by (rule rest_kept_trans)
    then show ?thesis using c Inr by simp
  qed
qed

lemma install_batches_kept: "rest_kept w (snd (install_batches e pkgs i w))"
  by (simp add: install_batches_each install_each_kept)

lemma pure_step_kept: "rest_kept w (snd (pure_step r w))"
  by (simp add: pure_step_def rest_kept_refl)

lemma preload_install_kept: "rest_kept w (snd (preload_install e pkgs w))"
  unfolding preload_install_def Let_def
  by (intro andThen_kept call_runtime_kept pure_step_kept)
     (auto intro!: andThen_kept call_runtime_kept pure_step_kept install_batches_kept
           simp: rest_kept_refl)


lemma fetch_list_kept: "list_kept w (snd (fetch_list e w))"
  by (simp add: fetch_list_def Let_def Date_now_def list_kept_def
      split: http_reply.splits option.splits sum.splits)

lemma fetchPyodidePackages_kept: "list_kept w (snd (fetchPyodidePackages e w))"
proof (cases "packageCache w")
  case None
  then show ?thesis using fetch_list_kept [of w e] by (simp add: fetchPyodidePackages_def)
next
  case (Some c)
  let ?w1 = "w\<lparr>clock_reads := clock_reads w + 1\<rparr>"
  have "list_kept ?w1 (snd (fetch_list e ?w1))" by (rule fetch_list_kept)
  then have "list_kept w (snd (fetch_list e ?w1))" by (simp add: list_kept_def)
  moreover have "list_kept w ?w1" by (simp add: list_kept_def)
  ultimately show ?thesis using Some
    by (simp add: fetchPyodidePackages_def Date_now_def)
qed

lemma preloadPackages_fetch:
  "fetch (preloadPackages e w) = (if packagesLoaded w then fetch w else WheelLogger (fetch w))"
proof (cases "packagesLoaded w")
  case True
  then show ?thesis by (simp add: preloadPackages_def)
next
  case False
  let ?w1 = "w\<lparr>fetch := WheelLogger (fetch w)\<rparr>"
  obtain pkgs w2 where f: "fetchPyodidePackages e ?w1 = (pkgs, w2)"
    by (cases "fetchPyodidePackages e ?w1")
  obtain r w3 where i: "preload_install e pkgs w2 = (r, w3)"
    by (cases "preload_install e pkgs w2")
  have "fetch w2 = WheelLogger (fetch w)"
    using fetchPyodidePackages_kept [of ?w1 e] f by (simp add: list_kept_def)
  moreover have "fetch w3 = fetch w2"
    using preload_install_kept [of w2 e pkgs] i by (simp add: rest_kept_def)
  ultimately show ?thesis using False f i
    by (cases r) (simp_all add: preloadPackages_def)
qed

section \<open>The worker: cells and the runtime\<close>






section \<open>The utilities: what a store access and a runtime call leave alone\<close>

lemma store_only_refl: "store_only p p"
  by (simp add: store_only_def)

lemma store_only_trans: "store_only p p1 \<Longrightarrow> store_only p1 p2 \<Longrightarrow> store_only p p2"
  unfolding store_only_def
proof -
  assume a: "p1 = p\<lparr>wheels := wheels p1, page_clock_reads := page_clock_reads p1, idb_ops := idb_ops p1\<rparr>"
    and b: "p2 = p1\<lparr>wheels := wheels p2, page_clock_reads := page_clock_reads p2, idb_ops := idb_ops p2\<rparr>"
  have "p2 = (p\<lparr>wheels := wheels p1, page_clock_reads := page_clock_reads p1, idb_ops := idb_ops p1\<rparr>)
      \<lparr>wheels := wheels p2, page_clock_reads := page_clock_reads p2, idb_ops := idb_ops p2\<rparr>"
    using a b by simp
  then show "p2 = p\<lparr>wheels := wheels p2, page_clock_reads := page_clock_reads p2, idb_ops := idb_ops p2\<rparr>"
    by simp
qed

lemma cachePackageWheel_store_only: "store_only p (snd (cachePackageWheel e n u d p))"
  by (simp add: cachePackageWheel_def idb_next_def page_now_def store_only_def Let_def
      split: idb_outcome.splits)

lemma getCachedPackageWheel_store_only: "store_only p (snd (getCachedPackageWheel e n p))"
  by (simp add: getCachedPackageWheel_def idb_next_def store_only_def Let_def
      split: idb_outcome.splits)

lemma getCachedPackageWheel_wheels: "wheels (snd (getCachedPackageWheel e n p)) = wheels p"
  by (simp add: getCachedPackageWheel_def idb_next_def Let_def split: idb_outcome.splits)

lemma fetch_through_store_only: "store_only p (fetch_through e f u b p)"
proof (induction f arbitrary: p)
  case NativeFetch
  show ?case by (simp add: store_only_refl)
next
  case (WheelLogger f)
  then show ?case by simp
next
  case (WheelCacher f)
  have 1: "store_only p (fetch_through e f u b p)" by (rule WheelCacher.IH)
  have 2: "store_only (fetch_through e f u b p)
     (snd (cachePackageWheel e (packageName_of u) u b (fetch_through e f u b p)))"
    by (rule cachePackageWheel_store_only)
  from 1 2 have "store_only p
     (snd (cachePackageWheel e (packageName_of u) u b (fetch_through e f u b p)))"
    by (rule store_only_trans)
  with 1 show ?case by (simp add: Let_def)
qed

lemma page_deliver_store_only: "store_only p (page_deliver e ev p)"
  by (cases ev) (simp_all add: store_only_refl fetch_through_store_only)

lemma page_deliver_all_store_only: "store_only p (foldl (\<lambda>q ev. page_deliver e ev q) p evs)"
proof (induction evs arbitrary: p)
  case Nil
  show ?case by (simp add: store_only_refl)
next
  case (Cons ev evs)
  have "store_only p (page_deliver e ev p)" by (rule page_deliver_store_only)
  moreover have "store_only (page_deliver e ev p)
      (foldl (\<lambda>q ev. page_deliver e ev q) (page_deliver e ev p) evs)"
    by (rule Cons.IH)
  ultimately show ?case by (simp add: store_only_trans)
qed

lemma call_page_result:
  "\<exists>p'. call_page e c p = (outcome (rt e (page_calls p) c), p')
     \<and> store_only (p\<lparr>page_calls := page_calls p @ [c]\<rparr>) p'"
  by (simp add: call_page_def Let_def page_deliver_all_store_only)


lemma store_only_fields:
  assumes "store_only p p'"
  shows "window_fetch p' = window_fetch p" and "loadPackage p' = loadPackage p"
    and "localStorage p' = localStorage p" and "page_requests p' = page_requests p"
    and "page_calls p' = page_calls p"
proof -
  let ?q = "p\<lparr>wheels := wheels p', page_clock_reads := page_clock_reads p', idb_ops := idb_ops p'\<rparr>"
  have h: "p' = ?q" using assms by (simp add: store_only_def)
  have "window_fetch p' = window_fetch ?q" using h by (rule arg_cong)
  then show "window_fetch p' = window_fetch p" by simp
  have "loadPackage p' = loadPackage ?q" using h by (rule arg_cong)
  then show "loadPackage p' = loadPackage p" by simp
  have "localStorage p' = localStorage ?q" using h by (rule arg_cong)
  then show "localStorage p' = localStorage p" by simp
  have "page_requests p' = page_requests ?q" using h by (rule arg_cong)
  then show "page_requests p' = page_requests p" by simp
  have "page_calls p' = page_calls ?q" using h by (rule arg_cong)
  then show "page_calls p' = page_calls p" by simp
qed

lemma store_only_loader_kept: "store_only p p' \<Longrightarrow> loader_kept p p'"
  by (simp add: loader_kept_def store_only_fields)

lemma loader_kept_refl: "loader_kept p p"
  by (simp add: loader_kept_def)

lemma loader_kept_trans: "loader_kept p p1 \<Longrightarrow> loader_kept p1 p2 \<Longrightarrow> loader_kept p p2"
  by (simp add: loader_kept_def)

lemma call_page_calls:
  "page_calls (snd (call_page e c p)) = page_calls p @ [c]"
proof -
  from call_page_result [of e c p] obtain p' where
    "call_page e c p = (outcome (rt e (page_calls p) c), p')"
    "store_only (p\<lparr>page_calls := page_calls p @ [c]\<rparr>) p'"
    by blast
  then show ?thesis using store_only_fields(5) [of "p\<lparr>page_calls := page_calls p @ [c]\<rparr>" p']
    by simp
qed

lemma call_page_outcome: "fst (call_page e c p) = outcome (rt e (page_calls p) c)"
  by (simp add: call_page_def Let_def)

lemma call_page_kept:
  assumes "\<not> is_install c"
  shows "loader_kept p (snd (call_page e c p))"
proof -
  from call_page_result [of e c p] obtain p' where
    1: "call_page e c p = (outcome (rt e (page_calls p) c), p')"
    and 2: "store_only (p\<lparr>page_calls := page_calls p @ [c]\<rparr>) p'"
    by blast
  have "loader_kept (p\<lparr>page_calls := page_calls p @ [c]\<rparr>) p'"
    using 2 by (rule store_only_loader_kept)
  moreover have "loader_kept p (p\<lparr>page_calls := page_calls p @ [c]\<rparr>)"
    using assms by (simp add: loader_kept_def)
  ultimately show ?thesis using 1 by (simp add: loader_kept_trans)
qed

lemma sort_cached_store_only: "store_only p (snd (sort_cached e names cs ls p))"
proof (induction names arbitrary: cs ls p)
  case Nil
  show ?case by (simp add: store_only_refl)
next
  case (Cons n names)
  obtain r p1 where g: "getCachedPackageWheel e n p = (r, p1)"
    by (cases "getCachedPackageWheel e n p")
  have 1: "store_only p p1" using getCachedPackageWheel_store_only [of p e n] g by simp
  show ?case
  proof (cases r)
    case (Inl f)
    then show ?thesis using g 1 by simp
  next
    case (Inr x)
    show ?thesis
    proof (cases x)
      case None
      have "store_only p1 (snd (sort_cached e names cs (ls @ [n]) p1))" by (rule Cons.IH)
      with 1 have "store_only p (snd (sort_cached e names cs (ls @ [n]) p1))"
        by (rule store_only_trans)
      then show ?thesis using g Inr None by simp
    next
      case (Some d)
      have "store_only p1 (snd (sort_cached e names (cs @ [n]) ls p1))" by (rule Cons.IH)
      with 1 have "store_only p (snd (sort_cached e names (cs @ [n]) ls p1))"
        by (rule store_only_trans)
      then show ?thesis using g Inr Some by simp
    qed
  qed
qed

text \<open>
  A call through any chain of wrappers leaves \<open>window.fetch\<close> as it found it, whether
  the wrapped call returns or throws, and makes no install call.
\<close>

lemma call_loadPackage_kept: "loader_kept p (snd (call_loadPackage e l names p))"
proof (induction l arbitrary: names p)
  case PyodideLoader
  show ?case by (simp add: call_page_kept)
next
  case (CachingLoader orig)
  obtain r p1 where s: "sort_cached e names [] [] p = (r, p1)"
    by (cases "sort_cached e names [] [] p")
  have 1: "loader_kept p p1"
    using sort_cached_store_only [of p e names "[]" "[]"] s by (simp add: store_only_loader_kept)
  show ?case
  proof (cases r)
    case (Inl f)
    then show ?thesis using s 1 by simp
  next
    case (Inr cl)
    obtain cachedPackages packagesToLoad where cl: "cl = (cachedPackages, packagesToLoad)"
      by (cases cl)
    show ?thesis
    proof (cases "length packagesToLoad > 0")
      case False
      then show ?thesis using s Inr cl 1 by simp
    next
      case True
      let ?p2 = "p1\<lparr>window_fetch := WheelCacher (window_fetch p1)\<rparr>"
      obtain r3 p3 where c: "call_loadPackage e orig packagesToLoad ?p2 = (r3, p3)"
        by (cases "call_loadPackage e orig packagesToLoad ?p2")
      have "loader_kept ?p2 p3" using CachingLoader.IH [of ?p2 packagesToLoad] c by simp
      then have "loader_kept p1 (p3\<lparr>window_fetch := window_fetch p1\<rparr>)"
        by (simp add: loader_kept_def)
      with 1 have "loader_kept p (p3\<lparr>window_fetch := window_fetch p1\<rparr>)"
        by (rule loader_kept_trans)
      then show ?thesis using s Inr cl True c by (cases r3) (simp_all add: Let_def)
    qed
  qed
qed

section \<open>The package list and its cache\<close>

lemma fetch_list_failed:
  assumes "failed_reply (http e (requests w))"
  shows "fetch_list e w = (names_json DEFAULT_PACKAGES, w\<lparr>requests := requests w + 1\<rparr>)"
  using assms
  by (cases "http e (requests w)")
     (auto simp: fetch_list_def Let_def split: if_splits)

lemma fetch_list_lacks:
  assumes "lacks_list (http e (requests w))"
  shows "fst (fetch_list e w) = names_json DEFAULT_PACKAGES
     \<and> map_option packages (packageCache (snd (fetch_list e w))) = Some (names_json DEFAULT_PACKAGES)"
  using assms
  by (cases "http e (requests w)")
     (auto simp: fetch_list_def Let_def Date_now_def or_default_def split: option.splits sum.splits)

lemma fetch_list_requests: "requests (snd (fetch_list e w)) = Suc (requests w)"
  by (simp add: fetch_list_def Let_def Date_now_def split: http_reply.splits option.splits sum.splits)

lemma fetchPyodidePackages_cases:
  "(requests (snd (fetchPyodidePackages e w)) = requests w
      \<and> packageCache (snd (fetchPyodidePackages e w)) = packageCache w)
   \<or> (\<exists>w1. fetchPyodidePackages e w = fetch_list e w1 \<and> requests w1 = requests w
         \<and> packageCache w1 = packageCache w)"
  by (cases "packageCache w") (auto simp: fetchPyodidePackages_def Date_now_def Let_def)

lemma fetch_list_utils_failed:
  assumes "failed_reply (http e (page_requests p))"
  shows "fetch_list_utils e p = (names_json DEFAULT_PACKAGES_utils, p\<lparr>page_requests := page_requests p + 1\<rparr>)"
  using assms
  by (cases "http e (page_requests p)")
     (auto simp: fetch_list_utils_def Let_def split: if_splits)

lemma fetch_list_utils_lacks:
  assumes "lacks_list (http e (page_requests p))"
  shows "fst (fetch_list_utils e p) = names_json DEFAULT_PACKAGES_utils
     \<and> (\<exists>t. localStorage (snd (fetch_list_utils e p))
            = Some (Entry \<lparr>timestamp = t, packages = names_json DEFAULT_PACKAGES_utils\<rparr>))"
  using assms
  by (cases "http e (page_requests p)")
     (auto simp: fetch_list_utils_def Let_def page_now_def or_default_def split: option.splits sum.splits)

lemma fetch_list_utils_requests: "page_requests (snd (fetch_list_utils e p)) = Suc (page_requests p)"
  by (simp add: fetch_list_utils_def Let_def page_now_def split: http_reply.splits option.splits sum.splits)

lemma fetchPyodidePackages_utils_cases:
  "(page_requests (snd (fetchPyodidePackages_utils e p)) = page_requests p
      \<and> localStorage (snd (fetchPyodidePackages_utils e p)) = localStorage p)
   \<or> (\<exists>p1. fetchPyodidePackages_utils e p = fetch_list_utils e p1 \<and> page_requests p1 = page_requests p
         \<and> localStorage p1 = localStorage p)"
proof (cases "localStorage p")
  case None
  then show ?thesis by (auto simp: fetchPyodidePackages_utils_def)
next
  case (Some s)
  then show ?thesis
    by (cases s) (auto simp: fetchPyodidePackages_utils_def page_now_def Let_def)
qed


section \<open>Names as JSON, and the rules to run the utilities on the concrete environment\<close>

lemma as_names_names_json: "as_names (names_json ns) = Inr ns"
proof -
  have "list_all (\<lambda>x. the_string x \<noteq> None) (map JStr ns)" by (induction ns) simp_all
  moreover have "List.map_filter the_string (map JStr ns) = ns"
    by (induction ns) (simp_all add: map_filter_simps)
  ultimately show ?thesis by (simp add: names_json_def)
qed

lemmas page_eval =
  call_page_def cachePackageWheel_def getCachedPackageWheel_def idb_next_def page_now_def
  checkMissingPackages_def micropip_install_def installMissing_try_def installMissingPackages_def
  preload_rest_def preload_try_def preloadPyodidePackages_def setupCachedPackageLoader_def
  pure_page_def andThen_def packageName_of_def first_part_def last_part_def endsWith_def
  names_json_def toLowerCase_def lower_char_def map_filter_def Let_def
  demo_env_def demo_rt_def demo_script_def page_initial_def numpy_page_def numpy_wheel_def

section \<open>Install calls: the batch loop and the utilities\<close>

lemmas worker_eval =
  preloadPackages_def fetchPyodidePackages_def fetch_list_def preload_install_def
  install_batches_each batches_from.simps install_call_def call_runtime_def andThen_def
  pure_step_def packagesToInstall_of_def has_def toLowerCase_def lower_char_def names_json_def
  DEFAULT_PACKAGES_def BATCH_SIZE_def Date_now_def or_default_def
  demo_env_def demo_rt_def demo_script_def worker_initial_def Let_def
  stdout_batched_def stderr_batched_def map_filter_def bad_list_env_def seven_bad_def





section \<open>The cached loader, when the store can be read\<close>

lemma getCached_succeeds:
  assumes "idb e (idb_ops p) = Succeeds"
  shows "getCachedPackageWheel e n p = (Inr (map_option wheel_data (wheels p n)), p\<lparr>idb_ops := idb_ops p + 1\<rparr>)"
  using assms by (simp add: getCachedPackageWheel_def idb_next_def)

lemma sort_cached_all_succeed:
  assumes "\<forall>k. idb e k = Succeeds"
  shows "\<exists>p'. sort_cached e names cs ls p
      = (Inr (cs @ filter (\<lambda>n. wheels p n \<noteq> None) names, ls @ filter (\<lambda>n. wheels p n = None) names), p')
     \<and> wheels p' = wheels p \<and> page_calls p' = page_calls p \<and> window_fetch p' = window_fetch p"
proof (induction names arbitrary: cs ls p)
  case Nil
  show ?case by simp
next
  case (Cons n names)
  let ?p1 = "p\<lparr>idb_ops := idb_ops p + 1\<rparr>"
  have g: "getCachedPackageWheel e n p = (Inr (map_option wheel_data (wheels p n)), ?p1)"
    using assms by (simp add: getCached_succeeds)
  show ?case
  proof (cases "wheels p n")
    case None
    from Cons.IH [of cs "ls @ [n]" ?p1] obtain p' where
      "sort_cached e names cs (ls @ [n]) ?p1
        = (Inr (cs @ filter (\<lambda>n. wheels ?p1 n \<noteq> None) names,
                (ls @ [n]) @ filter (\<lambda>n. wheels ?p1 n = None) names), p')"
      "wheels p' = wheels ?p1" "page_calls p' = page_calls ?p1" "window_fetch p' = window_fetch ?p1"
      by blast
    then show ?thesis using g None by simp
  next
    case (Some r)
    from Cons.IH [of "cs @ [n]" ls ?p1] obtain p' where
      "sort_cached e names (cs @ [n]) ls ?p1
        = (Inr ((cs @ [n]) @ filter (\<lambda>n. wheels ?p1 n \<noteq> None) names,
                ls @ filter (\<lambda>n. wheels ?p1 n = None) names), p')"
      "wheels p' = wheels ?p1" "page_calls p' = page_calls ?p1" "window_fetch p' = window_fetch ?p1"
      by blast
    then show ?thesis using g Some by simp
  qed
qed

lemmas run_eval =
  worker_run_def worker_step_def onmessage_def executeCode_def execute_begin_def
  initializePyodide_def execute_try_def execute_catch_def execute_finally_def update_cell_def
  fresh_cell_def

section \<open>C1: Failing installs\<close>




section \<open>C2: The registry sets\<close>

text \<open>
  C2, as the spec states it, fails: marking a name failed and then loaded leaves it in
  both \<open>failed\<close> and \<open>loaded\<close>, since neither operation touches the other's set.
\<close>

theorem C2_counterexample:
  "\<not> memberships (registry_run [MarkFailed ''numpy'', MarkLoaded ''numpy''] packageCache_initial)
       ''numpy'' \<le> 1"
  by (simp add: memberships_def registry_run_def packageCache_initial_def
      markPackageAsLoaded_def markPackageAsFailed_def)

text \<open>
  C2 (amended): over every sequence of the registry's two mutating operations, started
  where no name is in \<open>loading\<close> together with another set (the initial registry is
  such), no name is in \<open>loading\<close> together with \<open>loaded\<close> or \<open>failed\<close> afterwards;
  marking a name loaded puts it in \<open>loaded\<close> and removes it from \<open>loading\<close>, marking
  it failed puts it in \<open>failed\<close> and removes it from \<open>loading\<close>; \<open>loaded\<close> and
  \<open>failed\<close> only grow, so a name can end in both.
\<close>

theorem C2_registry_loading_apart:
  assumes "loading_apart pc"
  shows "loading_apart (registry_run ops pc)
    \<and> n \<in> loaded (markPackageAsLoaded n pc) \<and> n \<notin> loading (markPackageAsLoaded n pc)
    \<and> n \<in> failed (markPackageAsFailed n pc) \<and> n \<notin> loading (markPackageAsFailed n pc)
    \<and> loaded pc \<subseteq> loaded (registry_run ops pc) \<and> failed pc \<subseteq> failed (registry_run ops pc)"
proof -
  have "loading_apart (registry_run ops pc)"
    using assms by (simp add: registry_run_def loading_apart_foldl)
  moreover have "n \<in> loaded (markPackageAsLoaded n pc) \<and> n \<notin> loading (markPackageAsLoaded n pc)"
    by (simp add: markPackageAsLoaded_def Let_def)
  moreover have "n \<in> failed (markPackageAsFailed n pc) \<and> n \<notin> loading (markPackageAsFailed n pc)"
    by (simp add: markPackageAsFailed_def Let_def)
  moreover have "loaded pc \<subseteq> loaded (registry_run ops pc) \<and> failed pc \<subseteq> failed (registry_run ops pc)"
    by (simp add: registry_run_def sets_grow_foldl)
  ultimately show ?thesis by simp
qed

theorem C2_registry_loading_apart_witness:
  "loading_apart packageCache_initial
   \<and> loading_apart (registry_run [MarkFailed ''numpy'', MarkLoaded ''numpy''] packageCache_initial)
   \<and> ''scipy'' \<in> loaded (markPackageAsLoaded ''scipy'' packageCache_initial)
   \<and> ''scipy'' \<notin> loading (markPackageAsLoaded ''scipy'' packageCache_initial)"
proof -
  have h: "loading_apart packageCache_initial"
    by (simp add: loading_apart_def packageCache_initial_def)
  show ?thesis
    using h C2_registry_loading_apart [OF h, of "[MarkFailed ''numpy'', MarkLoaded ''numpy'']" "''scipy''"]
    by simp
qed

section \<open>C3: Cached wheels and the runtime\<close>

text \<open>
  C3 at the failing input: a page whose wheel cache holds \<open>numpy\<close>, and a call of the
  wrapped \<open>loadPackage\<close> for \<open>numpy\<close>. The call reports success and makes no call
  into the runtime at all: the cached bytes are read and nothing is registered with
  them. Asked for \<open>numpy\<close> and \<open>scipy\<close>, it passes on \<open>scipy\<close> alone.
\<close>

theorem C3_cached_package_never_registered:
  "fst (call_loadPackage demo_env (CachingLoader PyodideLoader) [''numpy''] numpy_page)
     = Inr (JsonText (JBool True))
   \<and> page_calls (snd (call_loadPackage demo_env (CachingLoader PyodideLoader) [''numpy''] numpy_page)) = []
   \<and> page_calls (snd (call_loadPackage demo_env (CachingLoader PyodideLoader) [''numpy'', ''scipy'']
        numpy_page)) = [LoadPackage [''scipy'']]"
  by (simp add: page_eval)

section \<open>C4: The fetch wrapper of the worker\<close>

text \<open>
  C4 at the failing input: the worker's \<open>preloadPackages\<close>, started on a fresh worker.
  It wraps \<open>self.fetch\<close> and returns with the wrapper still in place, both when every
  install succeeds and when an install throws.
\<close>

theorem C4_preload_leaves_wrapper:
  "fetch worker_initial = NativeFetch
   \<and> fetch (preloadPackages demo_env worker_initial) = WheelLogger NativeFetch
   \<and> packagesLoaded (preloadPackages demo_env worker_initial)
   \<and> fetch (preloadPackages bad_list_env worker_initial) = WheelLogger NativeFetch
   \<and> \<not> packagesLoaded (preloadPackages bad_list_env worker_initial)"
  by (simp add: worker_eval)

section \<open>C5: The end of an execution\<close>



section \<open>C6: The statuses of a cell\<close>




section \<open>C7: The default package list\<close>

text \<open>
  C7, as the spec states it, fails twice. The utilities' \<open>fetchPyodidePackages\<close> falls
  back to a default list of its own, which has 6 names, not the worker's 9: so on an
  HTTP 500. And in both versions a reply with status 200 whose JSON body has no
  \<open>packages\<close> member makes the function return the default list and store it as a
  fresh cache entry.
\<close>

theorem C7_counterexample:
  "http demo_env 0 = Response False 500 None
   \<and> fst (fetchPyodidePackages_utils demo_env page_initial) \<noteq> names_json DEFAULT_PACKAGES
   \<and> fst (fetchPyodidePackages_utils demo_env page_initial)
       = names_json [''micropip'', ''packaging'', ''requests'', ''beautifulsoup4'', ''numpy'', ''pandas'']
   \<and> http empty_object_env 0 = Response True 200 (Some (JObj []))
   \<and> packageCache worker_initial = None
   \<and> packageCache (snd (fetchPyodidePackages empty_object_env worker_initial))
       = Some \<lparr>timestamp = 1000, packages = names_json DEFAULT_PACKAGES\<rparr>"
  by (simp add: fetchPyodidePackages_utils_def fetch_list_utils_def fetchPyodidePackages_def
      fetch_list_def DEFAULT_PACKAGES_utils_def DEFAULT_PACKAGES_def names_json_def
      or_default_def Date_now_def Let_def
      demo_env_def empty_object_env_def page_initial_def worker_initial_def)

text \<open>
  C7 (amended): whenever a call sends the list request and the request fails, the
  status is not a success, the body is not JSON or is the JSON \<open>null\<close>, the worker's
  \<open>fetchPyodidePackages\<close> returns its static default list of 9 names and leaves its
  cache variable as it was, and the utilities' \<open>fetchPyodidePackages\<close> returns its own
  static default list of 6 names and leaves the stored cache item as it was. When the
  reply is a success whose JSON body has no usable \<open>packages\<close> member, each returns
  its default list and writes it to its cache as a new entry.
\<close>

theorem C7_list_fallback:
  "(list_requested e w \<and> failed_reply (http e (requests w)) \<longrightarrow>
       fst (fetchPyodidePackages e w) = names_json DEFAULT_PACKAGES
       \<and> packageCache (snd (fetchPyodidePackages e w)) = packageCache w)
   \<and> (list_requested_utils e p \<and> failed_reply (http e (page_requests p)) \<longrightarrow>
       fst (fetchPyodidePackages_utils e p) = names_json DEFAULT_PACKAGES_utils
       \<and> localStorage (snd (fetchPyodidePackages_utils e p)) = localStorage p)
   \<and> length DEFAULT_PACKAGES = 9 \<and> length DEFAULT_PACKAGES_utils = 6
   \<and> (list_requested e w \<and> lacks_list (http e (requests w)) \<longrightarrow>
       fst (fetchPyodidePackages e w) = names_json DEFAULT_PACKAGES
       \<and> map_option packages (packageCache (snd (fetchPyodidePackages e w)))
           = Some (names_json DEFAULT_PACKAGES))
   \<and> (list_requested_utils e p \<and> lacks_list (http e (page_requests p)) \<longrightarrow>
       fst (fetchPyodidePackages_utils e p) = names_json DEFAULT_PACKAGES_utils
       \<and> (\<exists>t. localStorage (snd (fetchPyodidePackages_utils e p))
              = Some (Entry \<lparr>timestamp = t, packages = names_json DEFAULT_PACKAGES_utils\<rparr>)))"
proof -
  have w1: "\<exists>w1. fetchPyodidePackages e w = fetch_list e w1 \<and> requests w1 = requests w
         \<and> packageCache w1 = packageCache w" if "list_requested e w"
    using that fetchPyodidePackages_cases [of e w] by (auto simp: list_requested_def)
  have p1: "\<exists>p1. fetchPyodidePackages_utils e p = fetch_list_utils e p1
         \<and> page_requests p1 = page_requests p \<and> localStorage p1 = localStorage p"
    if "list_requested_utils e p"
    using that fetchPyodidePackages_utils_cases [of e p] by (auto simp: list_requested_utils_def)
  have a: "fst (fetchPyodidePackages e w) = names_json DEFAULT_PACKAGES
       \<and> packageCache (snd (fetchPyodidePackages e w)) = packageCache w"
    if "list_requested e w" "failed_reply (http e (requests w))"
  proof -
    from w1 [OF that(1)] obtain w1 where
      x: "fetchPyodidePackages e w = fetch_list e w1" "requests w1 = requests w"
         "packageCache w1 = packageCache w"
      by blast
    then have "failed_reply (http e (requests w1))" using that(2) by simp
    from fetch_list_failed [OF this] show ?thesis using x by simp
  qed
  have b: "fst (fetchPyodidePackages_utils e p) = names_json DEFAULT_PACKAGES_utils
       \<and> localStorage (snd (fetchPyodidePackages_utils e p)) = localStorage p"
    if "list_requested_utils e p" "failed_reply (http e (page_requests p))"
  proof -
    from p1 [OF that(1)] obtain p1 where
      x: "fetchPyodidePackages_utils e p = fetch_list_utils e p1" "page_requests p1 = page_requests p"
         "localStorage p1 = localStorage p"
      by blast
    then have "failed_reply (http e (page_requests p1))" using that(2) by simp
    from fetch_list_utils_failed [OF this] show ?thesis using x by simp
  qed
  have c: "fst (fetchPyodidePackages e w) = names_json DEFAULT_PACKAGES
       \<and> map_option packages (packageCache (snd (fetchPyodidePackages e w)))
           = Some (names_json DEFAULT_PACKAGES)"
    if "list_requested e w" "lacks_list (http e (requests w))"
  proof -
    from w1 [OF that(1)] obtain w1 where
      x: "fetchPyodidePackages e w = fetch_list e w1" "requests w1 = requests w"
      by blast
    then have "lacks_list (http e (requests w1))" using that(2) by simp
    from fetch_list_lacks [OF this] show ?thesis using x by simp
  qed
  have d: "fst (fetchPyodidePackages_utils e p) = names_json DEFAULT_PACKAGES_utils
       \<and> (\<exists>t. localStorage (snd (fetchPyodidePackages_utils e p))
              = Some (Entry \<lparr>timestamp = t, packages = names_json DEFAULT_PACKAGES_utils\<rparr>))"
    if "list_requested_utils e p" "lacks_list (http e (page_requests p))"
  proof -
    from p1 [OF that(1)] obtain p1 where
      x: "fetchPyodidePackages_utils e p = fetch_list_utils e p1" "page_requests p1 = page_requests p"
      by blast
    then have "lacks_list (http e (page_requests p1))" using that(2) by simp
    from fetch_list_utils_lacks [OF this] show ?thesis using x by simp
  qed
  have "length DEFAULT_PACKAGES = 9" "length DEFAULT_PACKAGES_utils = 6"
    by (simp_all add: DEFAULT_PACKAGES_def DEFAULT_PACKAGES_utils_def)
  with a b c d show ?thesis by blast
qed

theorem C7_list_fallback_witness:
  "list_requested demo_env worker_initial \<and> failed_reply (http demo_env (requests worker_initial))
   \<and> fst (fetchPyodidePackages demo_env worker_initial) = names_json DEFAULT_PACKAGES
   \<and> packageCache (snd (fetchPyodidePackages demo_env worker_initial)) = packageCache worker_initial
   \<and> list_requested_utils demo_env page_initial \<and> failed_reply (http demo_env (page_requests page_initial))
   \<and> fst (fetchPyodidePackages_utils demo_env page_initial) = names_json DEFAULT_PACKAGES_utils
   \<and> localStorage (snd (fetchPyodidePackages_utils demo_env page_initial)) = localStorage page_initial
   \<and> list_requested empty_object_env worker_initial
   \<and> lacks_list (http empty_object_env (requests worker_initial))
   \<and> map_option packages (packageCache (snd (fetchPyodidePackages empty_object_env worker_initial)))
       = Some (names_json DEFAULT_PACKAGES)
   \<and> list_requested_utils empty_object_env page_initial
   \<and> lacks_list (http empty_object_env (page_requests page_initial))
   \<and> fst (fetchPyodidePackages_utils empty_object_env page_initial) = names_json DEFAULT_PACKAGES_utils"
proof -
  have h1: "list_requested demo_env worker_initial" "failed_reply (http demo_env (requests worker_initial))"
    by (simp_all add: list_requested_def fetchPyodidePackages_def fetch_list_def Let_def
        demo_env_def worker_initial_def)
  have h2: "list_requested_utils demo_env page_initial"
    "failed_reply (http demo_env (page_requests page_initial))"
    by (simp_all add: list_requested_utils_def fetchPyodidePackages_utils_def fetch_list_utils_def
        Let_def demo_env_def page_initial_def)
  have h3: "list_requested empty_object_env worker_initial"
    "lacks_list (http empty_object_env (requests worker_initial))"
    by (simp_all add: list_requested_def fetchPyodidePackages_def fetch_list_def Let_def Date_now_def
        empty_object_env_def demo_env_def worker_initial_def)
  have h4: "list_requested_utils empty_object_env page_initial"
    "lacks_list (http empty_object_env (page_requests page_initial))"
    by (simp_all add: list_requested_utils_def fetchPyodidePackages_utils_def fetch_list_utils_def
        Let_def page_now_def empty_object_env_def demo_env_def page_initial_def)
  show ?thesis
    using h1 h2 h3 h4
      C7_list_fallback [of demo_env worker_initial page_initial]
      C7_list_fallback [of empty_object_env worker_initial page_initial]
    by simp
qed

section \<open>C8: Batches\<close>




section \<open>C9: The wheel cache round trip\<close>

text \<open>
  C9: a \<open>cachePackageWheel\<close> whose \<open>put\<close> request succeeds resolves, and a
  \<open>getCachedPackageWheel\<close> of the same name right after it, when its own request
  succeeds, returns exactly the bytes that were stored, whatever the store held before.
\<close>

theorem C9_wheel_round_trip:
  assumes "idb e (idb_ops p) = Succeeds" and "idb e (Suc (idb_ops p)) = Succeeds"
  shows "fst (cachePackageWheel e n u d p) = None
     \<and> fst (getCachedPackageWheel e n (snd (cachePackageWheel e n u d p))) = Inr (Some d)"
  using assms
  by (simp add: cachePackageWheel_def getCachedPackageWheel_def idb_next_def page_now_def Let_def)

theorem C9_wheel_round_trip_witness:
  "idb demo_env (idb_ops numpy_page) = Succeeds \<and> idb demo_env (Suc (idb_ops numpy_page)) = Succeeds
   \<and> fst (cachePackageWheel demo_env ''numpy'' ''https://cdn.example/pyodide/numpy-2.1.0-cp312.whl''
                [1, 2, 255] numpy_page) = None
   \<and> fst (getCachedPackageWheel demo_env ''numpy''
         (snd (cachePackageWheel demo_env ''numpy'' ''https://cdn.example/pyodide/numpy-2.1.0-cp312.whl''
                [1, 2, 255] numpy_page))) = Inr (Some [1, 2, 255])"
proof -
  have h: "idb demo_env (idb_ops numpy_page) = Succeeds" "idb demo_env (Suc (idb_ops numpy_page)) = Succeeds"
    by (simp_all add: demo_env_def)
  show ?thesis
    using h C9_wheel_round_trip [OF h, of "''numpy''" "''https://cdn.example/pyodide/numpy-2.1.0-cp312.whl''" "[1, 2, 255]"]
    by simp
qed

section \<open>C10: The missing-package check\<close>

text \<open>
  C10: \<open>checkMissingPackages\<close> never throws. For a non-empty list of names, if the
  runtime query throws, it returns the list it was given; for an empty list and for an
  absent argument it returns the empty list, without asking the runtime.
\<close>

theorem C10_checkMissing_conservative:
  "(ns \<noteq> [] \<and> (\<exists>f. outcome (rt e (page_calls p) (RunPythonAsync (CheckScript (map toLowerCase ns)))) = Inl f)
      \<longrightarrow> fst (checkMissingPackages e (names_json ns) p) = names_json ns)
   \<and> checkMissingPackages e (names_json []) p = (JArr [], p)
   \<and> checkMissingPackages e JNull p = (JArr [], p)"
proof -
  have "fst (checkMissingPackages e (names_json ns) p) = names_json ns"
    if "ns \<noteq> []" and "outcome (rt e (page_calls p) (RunPythonAsync (CheckScript (map toLowerCase ns)))) = Inl f"
    for f
  proof -
    have t: "truthy (names_json ns)" "length_is_zero (names_json ns) = Inr False"
      using that(1) by (simp_all add: names_json_def)
    have c: "fst (call_page e (RunPythonAsync (CheckScript (map toLowerCase ns))) p) = Inl f"
      using that(2) by (simp add: call_page_outcome)
    obtain r p1 where cp: "call_page e (RunPythonAsync (CheckScript (map toLowerCase ns))) p = (r, p1)"
      by (cases "call_page e (RunPythonAsync (CheckScript (map toLowerCase ns))) p")
    then have "r = Inl f" using c by simp
    then show ?thesis
      using t cp by (simp add: checkMissingPackages_def as_names_names_json)
  qed
  moreover have "checkMissingPackages e (names_json []) p = (JArr [], p)"
    by (simp add: checkMissingPackages_def names_json_def)
  moreover have "checkMissingPackages e JNull p = (JArr [], p)"
    by (simp add: checkMissingPackages_def)
  ultimately show ?thesis by blast
qed

theorem C10_checkMissing_conservative_witness:
  "[''NumPy'', ''broken''] \<noteq> []
   \<and> (\<exists>f. outcome (rt demo_env (page_calls page_initial)
              (RunPythonAsync (CheckScript (map toLowerCase [''NumPy'', ''broken''])))) = Inl f)
   \<and> fst (checkMissingPackages demo_env (names_json [''NumPy'', ''broken'']) page_initial)
       = names_json [''NumPy'', ''broken'']"
proof -
  have h: "\<exists>f. outcome (rt demo_env (page_calls page_initial)
              (RunPythonAsync (CheckScript (map toLowerCase [''NumPy'', ''broken''])))) = Inl f"
    by (simp add: demo_env_def demo_rt_def demo_script_def toLowerCase_def lower_char_def)
  show ?thesis
    using h C10_checkMissing_conservative [of "[''NumPy'', ''broken'']" demo_env page_initial]
    by simp
qed

section \<open>Further properties of the loader, the fetch wrappers and the output handlers\<close>

text \<open>
  With the wrapper installed once and a store that can be read, a call of
  \<open>loadPackage\<close> passes to the runtime exactly the requested names that have no
  record in the wheel cache, in their order, in one call; when every name has a record
  the runtime is not called.
\<close>

theorem cached_names_skip_network:
  assumes "\<forall>k. idb e k = Succeeds"
  shows "page_calls (snd (call_loadPackage e (CachingLoader PyodideLoader) names p))
     = page_calls p
       @ (if filter (\<lambda>n. wheels p n = None) names = [] then []
          else [LoadPackage (filter (\<lambda>n. wheels p n = None) names)])"
proof -
  let ?l = "filter (\<lambda>n. wheels p n = None) names"
  from sort_cached_all_succeed [OF assms, of names "[]" "[]" p] obtain p1 where
    s: "sort_cached e names [] [] p = (Inr (filter (\<lambda>n. wheels p n \<noteq> None) names, ?l), p1)"
    and c: "page_calls p1 = page_calls p"
    by auto
  show ?thesis
  proof (cases "?l = []")
    case True
    then show ?thesis using s c by simp
  next
    case False
    let ?p2 = "p1\<lparr>window_fetch := WheelCacher (window_fetch p1)\<rparr>"
    have "page_calls (snd (call_page e (LoadPackage ?l) ?p2)) = page_calls p @ [LoadPackage ?l]"
      using call_page_calls [of e "LoadPackage ?l" ?p2] c by simp
    then show ?thesis using s False
      by (cases "call_page e (LoadPackage ?l) ?p2") (auto simp: Let_def split: sum.splits)
  qed
qed

theorem cached_names_skip_network_witness:
  "(\<forall>k. idb demo_env k = Succeeds)
   \<and> page_calls (snd (call_loadPackage demo_env (CachingLoader PyodideLoader)
        [''scipy'', ''numpy'', ''regex''] numpy_page)) = [LoadPackage [''scipy'', ''regex'']]"
proof -
  have h: "\<forall>k. idb demo_env k = Succeeds" by (simp add: demo_env_def)
  have w: "wheels numpy_page = [''numpy'' \<mapsto> numpy_wheel]" "page_calls numpy_page = []"
    by (simp_all add: numpy_page_def page_initial_def)
  show ?thesis
    using h cached_names_skip_network [OF h, of "[''scipy'', ''numpy'', ''regex'']" numpy_page]
    by (simp add: w)
qed

text \<open>
  A call of \<open>loadPackage\<close> through the caching wrapper, however often the wrapper
  was installed, leaves \<open>window.fetch\<close> as it found it, whether the wrapped call
  returns or throws.
\<close>

theorem cached_loader_restores_fetch:
  "window_fetch (snd (call_loadPackage e l names p)) = window_fetch p"
  using call_loadPackage_kept [of p e l names] by (simp add: loader_kept_def)

text \<open>
  The worker's \<open>preloadPackages\<close>, whenever it runs its body, returns with one more
  wrapper around \<open>self.fetch\<close> than it found, whatever the runtime and the network do.
\<close>

theorem preload_wraps_fetch:
  "fetch (preloadPackages e w) = (if packagesLoaded w then fetch w else WheelLogger (fetch w))"
  by (rule preloadPackages_fetch)

text \<open>
  The handlers installed by \<open>executeCode\<close> stay installed when it is done. When the
  background preload runs after a cell has completed, what its Python programs print
  is appended to that cell's \<open>stdout\<close>.
\<close>

theorem preload_output_reaches_finished_cell:
  "map_option status
     (cells (worker_run demo_env [Message (Execute ''t1'' ''print(1)'')] worker_initial) ''t1'')
     = Some Completed
   \<and> map_option stdout
       (cells (worker_run demo_env [Message (Execute ''t1'' ''print(1)'')] worker_initial) ''t1'')
     = Some ''1''
   \<and> map_option status
       (cells (worker_run demo_env [Message (Execute ''t1'' ''print(1)''), PreloadRuns] worker_initial)
          ''t1'')
     = Some Completed
   \<and> map_option stdout
       (cells (worker_run demo_env [Message (Execute ''t1'' ''print(1)''), PreloadRuns] worker_initial)
          ''t1'')
     = Some (''1'' @ ''Python version: 3.12'' @ ''Micropip version: 0.6'')"
  by (simp add: run_eval worker_eval)

text \<open>
  The whole of the worker's \<open>preloadPackages\<close> on the concrete runtime, when the list
  endpoint names 7 packages none of which is loaded: the calls it makes, in order.
\<close>

theorem preload_of_seven_names:
  "calls (preloadPackages seven_list_env worker_initial)
     = [LoadPackage [''micropip''], PyImport ''micropip'', RunPythonAsync DiagnosticScript,
        RunPythonAsync ConfigureScript,
        install_call [''attrs'', ''bokeh'', ''click''],
        install_call [''docutils'', ''emcee'', ''flask''],
        install_call [''gmpy2''],
        RunPythonAsync VerifyScript]
   \<and> packagesLoaded (preloadPackages seven_list_env worker_initial)"
  by (simp add: worker_eval seven_list_env_def seven_names_def)

end
